theory Spec2Isabelle
  imports Complex_Main "HOL-Library.Monad_Syntax"
begin

section \<open>Scalars: \<^verbatim>\<open>real_t\<close>\<close>

text \<open>
  The solver computes on \<^verbatim>\<open>real_t\<close> (a C++ floating-point type, \<^verbatim>\<open>double\<close> in
  the reference build).  The control flow of \<^verbatim>\<open>panoc.cpp\<close> depends on the special
  values of that type: a comparison with NaN is false, \<^verbatim>\<open>std::isfinite\<close> rejects
  NaN and both infinities, \<^verbatim>\<open>std::fmax\<close>/\<^verbatim>\<open>std::fmin\<close> drop a NaN operand.  The
  model keeps exactly that: a scalar is a finite real, one of the two infinities, or
  NaN, and the operations follow IEEE 754 on the special values.  On finite operands
  the arithmetic is exact: rounding, overflow, underflow and the sign of zero are not
  modelled (a division of a non-zero finite by zero gives the infinity of the sign of
  the numerator).

  The source names its functions and variables with Greek letters, hats and
  subscripts; here they are spelled out: \<open>psi_k\<close> is the variable \<open>\<psi>\<^sub>k\<close> of the source,
  \<open>psi_hat_xk\<close> its \<open>\<psi>\<close> at \<open>xhat\<^sub>k\<close>, \<open>grad_psi_k1\<close> its \<open>\<nabla>\<psi>\<^sub>k\<^sub>+\<^sub>1\<close>, \<open>gamma_k\<close>, \<open>sigma_k\<close>,
  \<open>phi_k\<close> and \<open>tau\<close> its \<open>\<gamma>\<^sub>k\<close>, \<open>\<sigma>\<^sub>k\<close>, \<open>\<phi>\<^sub>k\<close> and \<open>\<tau>\<close>, and \<open>calc_xhat\<close>, \<open>calc_zhat\<close>,
  \<open>calc_psi_yhat\<close> its functions of these names with a hat on the \<open>x\<close>, \<open>z\<close>, \<open>y\<close>.
\<close>

datatype real_t = Fin real | PInf | MInf | NaN

fun isfinite :: "real_t \<Rightarrow> bool" where
  "isfinite (Fin a) = True"
| "isfinite PInf = False"
| "isfinite MInf = False"
| "isfinite NaN = False"

fun isnan :: "real_t \<Rightarrow> bool" where
  "isnan NaN = True"
| "isnan (Fin a) = False"
| "isnan PInf = False"
| "isnan MInf = False"

instantiation real_t :: "{plus, minus, uminus, times, divide, ord}"
begin

fun plus_real_t :: "real_t \<Rightarrow> real_t \<Rightarrow> real_t" where
  "Fin a + Fin b = Fin (a + b)"
| "Fin a + PInf = PInf"
| "Fin a + MInf = MInf"
| "Fin a + NaN = NaN"
| "PInf + Fin b = PInf"
| "PInf + PInf = PInf"
| "PInf + MInf = NaN"
| "PInf + NaN = NaN"
| "MInf + Fin b = MInf"
| "MInf + PInf = NaN"
| "MInf + MInf = MInf"
| "MInf + NaN = NaN"
| "NaN + b = NaN"

fun uminus_real_t :: "real_t \<Rightarrow> real_t" where
  "- Fin a = Fin (- a)"
| "- PInf = MInf"
| "- MInf = PInf"
| "- NaN = NaN"

definition minus_real_t :: "real_t \<Rightarrow> real_t \<Rightarrow> real_t" where
  "a - b = a + (- b)" for a b :: real_t

fun times_real_t :: "real_t \<Rightarrow> real_t \<Rightarrow> real_t" where
  "Fin a * Fin b = Fin (a * b)"
| "Fin a * PInf = (if 0 < a then PInf else if a < 0 then MInf else NaN)"
| "Fin a * MInf = (if 0 < a then MInf else if a < 0 then PInf else NaN)"
| "Fin a * NaN = NaN"
| "PInf * Fin b = (if 0 < b then PInf else if b < 0 then MInf else NaN)"
| "PInf * PInf = PInf"
| "PInf * MInf = MInf"
| "PInf * NaN = NaN"
| "MInf * Fin b = (if 0 < b then MInf else if b < 0 then PInf else NaN)"
| "MInf * PInf = MInf"
| "MInf * MInf = PInf"
| "MInf * NaN = NaN"
| "NaN * b = NaN"

fun divide_real_t :: "real_t \<Rightarrow> real_t \<Rightarrow> real_t" where
  "Fin a div Fin b =
     (if b \<noteq> 0 then Fin (a / b)
      else if 0 < a then PInf else if a < 0 then MInf else NaN)"
| "Fin a div PInf = Fin 0"
| "Fin a div MInf = Fin 0"
| "Fin a div NaN = NaN"
| "PInf div Fin b = (if 0 \<le> b then PInf else MInf)"
| "PInf div PInf = NaN"
| "PInf div MInf = NaN"
| "PInf div NaN = NaN"
| "MInf div Fin b = (if 0 \<le> b then MInf else PInf)"
| "MInf div PInf = NaN"
| "MInf div MInf = NaN"
| "MInf div NaN = NaN"
| "NaN div b = NaN"

fun less_real_t :: "real_t \<Rightarrow> real_t \<Rightarrow> bool" where
  "Fin a < Fin b \<longleftrightarrow> a < b"
| "Fin a < PInf \<longleftrightarrow> True"
| "Fin a < MInf \<longleftrightarrow> False"
| "Fin a < NaN \<longleftrightarrow> False"
| "PInf < b \<longleftrightarrow> False"
| "MInf < Fin b \<longleftrightarrow> True"
| "MInf < PInf \<longleftrightarrow> True"
| "MInf < MInf \<longleftrightarrow> False"
| "MInf < NaN \<longleftrightarrow> False"
| "NaN < b \<longleftrightarrow> False"

fun less_eq_real_t :: "real_t \<Rightarrow> real_t \<Rightarrow> bool" where
  "Fin a \<le> Fin b \<longleftrightarrow> a \<le> b"
| "Fin a \<le> PInf \<longleftrightarrow> True"
| "Fin a \<le> MInf \<longleftrightarrow> False"
| "Fin a \<le> NaN \<longleftrightarrow> False"
| "PInf \<le> Fin b \<longleftrightarrow> False"
| "PInf \<le> PInf \<longleftrightarrow> True"
| "PInf \<le> MInf \<longleftrightarrow> False"
| "PInf \<le> NaN \<longleftrightarrow> False"
| "MInf \<le> Fin b \<longleftrightarrow> True"
| "MInf \<le> PInf \<longleftrightarrow> True"
| "MInf \<le> MInf \<longleftrightarrow> True"
| "MInf \<le> NaN \<longleftrightarrow> False"
| "NaN \<le> b \<longleftrightarrow> False"

instance ..

end

text \<open>\<^verbatim>\<open>std::sqrt\<close>, \<^verbatim>\<open>std::abs\<close>, \<^verbatim>\<open>std::fmax\<close> and \<^verbatim>\<open>std::fmin\<close>.  The last two return
  the other operand when one operand is NaN.\<close>

fun sqrt_t :: "real_t \<Rightarrow> real_t" where
  "sqrt_t (Fin a) = (if a < 0 then NaN else Fin (sqrt a))"
| "sqrt_t PInf = PInf"
| "sqrt_t MInf = NaN"
| "sqrt_t NaN = NaN"

fun abs_t :: "real_t \<Rightarrow> real_t" where
  "abs_t (Fin a) = Fin \<bar>a\<bar>"
| "abs_t PInf = PInf"
| "abs_t MInf = PInf"
| "abs_t NaN = NaN"

definition fmax :: "real_t \<Rightarrow> real_t \<Rightarrow> real_t" where
  "fmax a b = (if isnan a then b else if isnan b then a else if a < b then b else a)"

definition fmin :: "real_t \<Rightarrow> real_t \<Rightarrow> real_t" where
  "fmin a b = (if isnan a then b else if isnan b then a else if b < a then b else a)"

text \<open>\<^verbatim>\<open>std::numeric_limits<real_t>::epsilon()\<close> for \<^verbatim>\<open>double\<close>.\<close>

definition epsilon :: real_t where
  "epsilon = Fin (1 / 2 ^ 52)"

section \<open>Vectors\<close>

text \<open>
  \<^verbatim>\<open>vec\<close> is a dense Eigen column vector; the model is the list of its
  coefficients.  Eigen requires the operands of a coefficient-wise operation to have
  the same size (an assertion, undefined behaviour without it); the model pairs the
  coefficients with \<open>zip\<close> and all vectors of one call are taken to have the sizes
  \<open>n\<close> and \<open>m\<close> of the problem.
\<close>

type_synonym vec = "real_t list"

definition binaryExpr :: "vec \<Rightarrow> vec \<Rightarrow> (real_t \<Rightarrow> real_t \<Rightarrow> real_t) \<Rightarrow> vec" where
  "binaryExpr a b f = map2 f a b"

definition vadd :: "vec \<Rightarrow> vec \<Rightarrow> vec" where
  "vadd a b = map2 (+) a b"

definition vsub :: "vec \<Rightarrow> vec \<Rightarrow> vec" where
  "vsub a b = map2 (-) a b"

definition vdiv :: "vec \<Rightarrow> vec \<Rightarrow> vec" where
  "vdiv a b = map2 (div) a b"

definition smul :: "real_t \<Rightarrow> vec \<Rightarrow> vec" where
  "smul c v = map (\<lambda>a. c * a) v"

definition vscale :: "vec \<Rightarrow> real_t \<Rightarrow> vec" where
  "vscale v c = map (\<lambda>a. a * c) v"

definition vsum :: "vec \<Rightarrow> real_t" where
  "vsum v = foldl (+) (Fin 0) v"

definition dot :: "vec \<Rightarrow> vec \<Rightarrow> real_t" where
  "dot a b = vsum (map2 (*) a b)"

definition squaredNorm :: "vec \<Rightarrow> real_t" where
  "squaredNorm v = vsum (map (\<lambda>a. a * a) v)"

definition norm_t :: "vec \<Rightarrow> real_t" where
  "norm_t v = sqrt_t (squaredNorm v)"

definition cwiseAbs :: "vec \<Rightarrow> vec" where
  "cwiseAbs v = map abs_t v"

text \<open>Eigen's \<^verbatim>\<open>cwiseMax\<close> with a scalar is \<^verbatim>\<open>std::max\<close> on each coefficient:
  \<^verbatim>\<open>(a < b) ? b : a\<close>.\<close>

definition cwiseMax :: "vec \<Rightarrow> real_t \<Rightarrow> vec" where
  "cwiseMax v c = map (\<lambda>a. if a < c then c else a) v"

definition hasNaN :: "vec \<Rightarrow> bool" where
  "hasNaN v = list_ex isnan v"

section \<open>The problem and the augmented objective\<close>

text \<open>
  \<^verbatim>\<open>Box\<close>, \<^verbatim>\<open>project\<close> and \<^verbatim>\<open>projecting_difference\<close> come from
  \<^verbatim>\<open>panoc-alm/box.hpp\<close> and \<^verbatim>\<open>Problem\<close> from the solver's headers.  The oracles
  \<open>f\<close>, \<open>grad_f\<close>, \<open>g\<close>, \<open>grad_g\<close> write their result into an output
  argument in the source; here they return it.
\<close>

record Box =
  upperbound :: vec
  lowerbound :: vec

record Problem =
  C :: Box
  D :: Box
  f :: "vec \<Rightarrow> real_t"
  grad_f :: "vec \<Rightarrow> vec"
  g :: "vec \<Rightarrow> vec"
  grad_g :: "vec \<Rightarrow> vec \<Rightarrow> vec"

text \<open>Modelled from the spec: \<^verbatim>\<open>project\<close> of \<^verbatim>\<open>box.hpp\<close>, which is not among the
  sources: the projection onto a box is the componentwise clamp, written with
  \<^verbatim>\<open>fmax\<close> and \<^verbatim>\<open>fmin\<close> as in \<open>calc_xhat\<close>.\<close>

definition project :: "vec \<Rightarrow> Box \<Rightarrow> vec" where
  "project v box = binaryExpr (binaryExpr v (lowerbound box) fmax) (upperbound box) fmin"

text \<open>Modelled from the spec: \<^verbatim>\<open>projecting_difference\<close> of \<^verbatim>\<open>box.hpp\<close>, which is not
  among the sources: \<open>v - \<Pi>(v)\<close>.\<close>

definition projecting_difference :: "vec \<Rightarrow> Box \<Rightarrow> vec" where
  "projecting_difference v box = vsub v (project v box)"

text \<open>Modelled from the spec: \<^verbatim>\<open>vec_util::norm_inf\<close> of \<^verbatim>\<open>vec.hpp\<close>, which is not
  among the sources: the largest absolute value of a coefficient, found by a scan that
  keeps the first value unless a later one compares greater.\<close>

definition norm_inf :: "vec \<Rightarrow> real_t" where
  "norm_inf v =
     (case cwiseAbs v of
        [] \<Rightarrow> Fin 0
      | a # as \<Rightarrow> foldl (\<lambda>r b. if r < b then b else r) a as)"

text \<open>\<open>calc_psi_yhat\<close>: \<open>\<psi>(x)\<close> and the vector from which \<open>\<nabla>\<psi>(x)\<close> is computed.  The
  loop of the source runs over the \<open>m\<close> constraints in increasing order.\<close>

definition calc_psi_yhat :: "Problem \<Rightarrow> vec \<Rightarrow> vec \<Rightarrow> vec \<Rightarrow> real_t \<times> vec" where
  "calc_psi_yhat p x y \<Sigma> =
     (let \<zeta> = vadd (g p x) (vdiv y \<Sigma>);
          d = projecting_difference \<zeta> (D p);
          dTy = foldl (\<lambda>acc (di, \<Sigma>i). acc + di * \<Sigma>i * di) (Fin 0) (zip d \<Sigma>);
          yhat = map2 (\<lambda>di \<Sigma>i. \<Sigma>i * di) d \<Sigma>;
          \<psi> = f p x + Fin (1/2) * dTy
      in (\<psi>, yhat))"

definition calc_grad_psi_from_yhat :: "Problem \<Rightarrow> vec \<Rightarrow> vec \<Rightarrow> vec" where
  "calc_grad_psi_from_yhat p x yhat = vadd (grad_f p x) (grad_g p x yhat)"

definition calc_psi_grad_psi :: "Problem \<Rightarrow> vec \<Rightarrow> vec \<Rightarrow> vec \<Rightarrow> real_t \<times> vec" where
  "calc_psi_grad_psi p x y \<Sigma> =
     (let (\<psi>, work_m) = calc_psi_yhat p x y \<Sigma>
      in (\<psi>, calc_grad_psi_from_yhat p x work_m))"

definition calc_grad_psi :: "Problem \<Rightarrow> vec \<Rightarrow> vec \<Rightarrow> vec \<Rightarrow> vec" where
  "calc_grad_psi p x y \<Sigma> =
     (let work_m = vadd (g p x) (vdiv y \<Sigma>);
          work_m = projecting_difference work_m (D p);
          work_m = map2 (*) \<Sigma> work_m
      in vadd (grad_f p x) (grad_g p x work_m))"

text \<open>\<open>calc_zhat\<close>: the pair \<open>(z, err_z)\<close>.\<close>

definition calc_zhat :: "Problem \<Rightarrow> vec \<Rightarrow> vec \<Rightarrow> vec \<Rightarrow> vec \<times> vec" where
  "calc_zhat p xhat y \<Sigma> =
     (let err_z = g p xhat;
          zhat = vadd err_z (vdiv y \<Sigma>);
          zhat = project zhat (D p)
      in (zhat, vsub err_z zhat))"

text \<open>\<open>calc_xhat\<close>: the projected gradient step.  The result is \<open>(xhat, p)\<close> and the
  returned flag (whether any progress was made).  The branch \<^verbatim>\<open>if (0)\<close> of the
  source is dead.\<close>

definition calc_xhat :: "Problem \<Rightarrow> real_t \<Rightarrow> vec \<Rightarrow> vec \<Rightarrow> vec \<times> vec \<times> bool" where
  "calc_xhat prob \<gamma> x grad_\<psi> =
     (let p = binaryExpr
                (binaryExpr (smul (- \<gamma>) grad_\<psi>) (vsub (lowerbound (C prob)) x) fmax)
                (vsub (upperbound (C prob)) x) fmin;
          xhat = vadd x p;
          norm_quot = sqrt_t (squaredNorm p div squaredNorm x)
      in (xhat, p, epsilon < norm_quot))"

definition calc_error_stop_crit :: "vec \<Rightarrow> real_t \<Rightarrow> vec \<Rightarrow> vec \<Rightarrow> real_t" where
  "calc_error_stop_crit pk \<gamma> grad_hat_psi_k grad_psi_k =
     (let err = vadd (smul (Fin 1 div \<gamma>) pk) (vsub grad_hat_psi_k grad_psi_k)
      in norm_inf err)"

section \<open>Parameters, statistics and the solver's environment\<close>

text \<open>Modelled from the spec: \<^verbatim>\<open>SolverStatus\<close> of \<^verbatim>\<open>panoc-alm/solverstatus.hpp\<close>,
  which is not among the sources: the five values of the status enum.\<close>

datatype SolverStatus = Converged | MaxIter | MaxTime | NotFinite | Interrupted

record LipschitzParams =
  Lipschitz_eps :: real_t
  Lipschitz_delta :: real_t
  Lgamma_factor :: real_t

text \<open>Durations are whole numbers of ticks: \<open>max_time\<close> in microseconds, the
  reading of the steady clock in nanoseconds.\<close>

record PANOCParams =
  Lipschitz :: LipschitzParams
  lbfgs_mem :: nat
  specialized_lbfgs :: bool
  update_lipschitz_in_linesearch :: bool
  max_iter :: nat
  max_time :: int
  tau_min :: real_t
  print_interval :: nat

record Stats =
  iterations :: nat
  stats_eps :: real_t
  elapsed_time :: int
  status :: SolverStatus
  linesearch_failures :: nat
  lbfgs_failures :: nat
  lbfgs_rejected :: nat

text \<open>
  The two L-BFGS classes (\<^verbatim>\<open>panoc-alm/lbfgs.hpp\<close>) are not among the sources.  The
  solver only calls their members, so they are parameters of the model: \<open>'lb\<close> is the
  state of an \<^verbatim>\<open>LBFGS\<close> object, \<open>'sl\<close> that of a \<^verbatim>\<open>SpecializedLBFGS\<close> object, and
  each member function takes the object and returns the updated one.
\<close>

record ('lb, 'sl) LBFGS_ops =
  LBFGS_new :: 'lb
  LBFGS_resize :: "'lb \<Rightarrow> nat \<Rightarrow> nat \<Rightarrow> 'lb"
  LBFGS_reset :: "'lb \<Rightarrow> 'lb"
  LBFGS_apply :: "'lb \<Rightarrow> vec \<Rightarrow> vec \<times> 'lb"
  LBFGS_update :: "'lb \<Rightarrow> vec \<Rightarrow> vec \<Rightarrow> bool \<times> 'lb"
  SLBFGS_new :: 'sl
  SLBFGS_resize :: "'sl \<Rightarrow> nat \<Rightarrow> nat \<Rightarrow> 'sl"
  SLBFGS_initialize :: "'sl \<Rightarrow> vec \<Rightarrow> vec \<Rightarrow> vec \<Rightarrow> real_t \<Rightarrow> 'sl"
  SLBFGS_reset :: "'sl \<Rightarrow> 'sl"
  SLBFGS_apply :: "'sl \<Rightarrow> vec \<Rightarrow> vec \<times> 'sl"
  SLBFGS_update :: "'sl \<Rightarrow> vec \<Rightarrow> vec \<Rightarrow> vec \<Rightarrow> Box \<Rightarrow> real_t \<Rightarrow> bool \<times> 'sl"

text \<open>
  What one call of \<^verbatim>\<open>PANOCSolver::operator()\<close> reads and never writes before it
  returns: the solver's \<open>params\<close>, the problem, \<open>y\<close>, \<open>\<Sigma>\<close>, the tolerance
  \<open>\<epsilon>\<close>, the contents of \<open>z\<close> and \<open>err_z\<close> on entry, and the environment: the
  time elapsed on the steady clock when iteration \<open>k\<close> reads it, the value a load
  of \<open>stop_signal\<close> returns in iteration \<open>k\<close>, the default-constructed
  \<^verbatim>\<open>Stats\<close>, and the indeterminate contents of the vector \<open>q\<close>, which the source
  allocates without initialising and reads in the first line search.
\<close>

record ('lb, 'sl) Call =
  params :: PANOCParams
  problem :: Problem
  y_in :: vec
  Sigma_in :: vec
  eps_tol :: real_t
  z_in :: vec
  err_z_in :: vec
  ops :: "('lb, 'sl) LBFGS_ops"
  time_elapsed_at :: "nat \<Rightarrow> int"
  stop_signal_at :: "nat \<Rightarrow> bool"
  stats_default :: Stats
  uninit :: vec
  uninit_t :: real_t

section \<open>The state of \<^verbatim>\<open>PANOCSolver::operator()\<close>\<close>

text \<open>
  The local variables of the call that live across iterations, under their names in
  the source, spelled out (\<open>xk1\<close> is \<open>x\<^sub>k\<^sub>+\<^sub>1\<close>, \<open>xhat_k\<close> the projected gradient step from
  \<open>x\<^sub>k\<close>, \<open>yhat_xhat_k\<close> the vector \<open>y\<close> computed at \<open>xhat_k\<close>, and so on).
  \<open>x_caller\<close> is the caller's \<open>x\<close>, which the call perturbs in place for the
  finite difference.  \<open>polls\<close> is not a variable of the source: it counts the loads
  of \<open>stop_signal\<close> made so far.
\<close>

record ('lb, 'sl) State =
  x_caller :: vec
  xk :: vec
  xhat_k :: vec
  xk1 :: vec
  xhat_k1 :: vec
  yhat_xhat_k :: vec
  yhat_xhat_k1 :: vec
  pk :: vec
  pk1 :: vec
  qk :: vec
  grad_psi_k :: vec
  grad_hat_psi_k :: vec
  grad_psi_k1 :: vec
  psi_k :: real_t
  psi_hat_xk :: real_t
  phi_k :: real_t
  Lk :: real_t
  sigma_k :: real_t
  gamma_k :: real_t
  grad_psi_kTpk :: real_t
  norm_sq_pk :: real_t
  lbfgs :: 'lb
  slbfgs :: 'sl
  stats :: Stats
  polls :: nat

text \<open>The scalars that the body of the main loop declares for the line search.\<close>

record LineSearch =
  phi_k1 :: real_t
  psi_k1 :: real_t
  psi_hat_xk1 :: real_t
  grad_psi_k1Tpk1 :: real_t
  norm_sq_pk1 :: real_t
  tau :: real_t
  Lk1 :: real_t
  sigma_k1 :: real_t
  gamma_k1 :: real_t
  ls_cond :: real_t

text \<open>What the caller holds when the call has returned.\<close>

record Result =
  res_x :: vec
  res_z :: vec
  res_y :: vec
  res_err_z :: vec
  res_stats :: Stats
  res_polls :: nat

datatype ('lb, 'sl) Step = Return Result | Continue "('lb, 'sl) State"

datatype Outcome = Returns Result | Throws_logic_error

section \<open>Lipschitz estimate and initial state\<close>

text \<open>Lines 212 to 227: the perturbation \<open>h\<close>, the caller's \<open>x\<close> after
  \<^verbatim>\<open>x += h\<close>, \<open>\<nabla>\<psi>(x\<^sub>0 + h)\<close>, \<open>\<psi>(x\<^sub>0)\<close>, \<open>\<nabla>\<psi>(x\<^sub>0)\<close> and the estimate.\<close>

definition lipschitz_estimate ::
  "('lb, 'sl) Call \<Rightarrow> vec \<Rightarrow> vec \<times> vec \<times> vec \<times> real_t \<times> vec \<times> real_t" where
  "lipschitz_estimate c x =
     (let h = cwiseMax (cwiseAbs (vscale x (Lipschitz_eps (Lipschitz (params c)))))
                (Lipschitz_delta (Lipschitz (params c)));
          x' = vadd x h;
          g1 = calc_grad_psi (problem c) x' (y_in c) (Sigma_in c);
          (\<psi>0, g0) = calc_psi_grad_psi (problem c) x (y_in c) (Sigma_in c);
          L = norm_t (vsub g1 g0) div norm_t h
      in (h, x', g1, \<psi>0, g0, L))"

text \<open>Lines 188 to 210 and 235 to 251, for the Lipschitz estimate \<open>L\<close>.\<close>

definition initial_state ::
  "('lb, 'sl) Call \<Rightarrow> vec \<Rightarrow> vec \<Rightarrow> vec \<Rightarrow> real_t \<Rightarrow> vec \<Rightarrow> real_t \<Rightarrow> ('lb, 'sl) State" where
  "initial_state c x x' g1 \<psi>0 g0 L =
     (let n = length x;
          \<gamma> = Lgamma_factor (Lipschitz (params c)) div L;
          \<sigma> = \<gamma> * (Fin 1 - \<gamma> * L) div Fin 2;
          (xhat, p, progress) = calc_xhat (problem c) \<gamma> x g0;
          (\<psi>hat, yhat) = calc_psi_yhat (problem c) xhat (y_in c) (Sigma_in c);
          gTp = dot g0 p;
          nsq = squaredNorm p
      in \<lparr> x_caller = x', xk = x, xhat_k = xhat, xk1 = uninit c, xhat_k1 = uninit c,
           yhat_xhat_k = yhat, yhat_xhat_k1 = uninit c, pk = p, pk1 = uninit c,
           qk = uninit c, grad_psi_k = g0, grad_hat_psi_k = uninit c, grad_psi_k1 = g1,
           psi_k = \<psi>0, psi_hat_xk = \<psi>hat,
           phi_k = \<psi>0 + Fin 1 div (Fin 2 * \<gamma>) * nsq + gTp,
           Lk = L, sigma_k = \<sigma>, gamma_k = \<gamma>, grad_psi_kTpk = gTp, norm_sq_pk = nsq,
           lbfgs = (if specialized_lbfgs (params c) then LBFGS_new (ops c)
                    else LBFGS_resize (ops c) (LBFGS_new (ops c)) n (lbfgs_mem (params c))),
           slbfgs = (if specialized_lbfgs (params c)
                     then SLBFGS_resize (ops c) (SLBFGS_new (ops c)) n (lbfgs_mem (params c))
                     else SLBFGS_new (ops c)),
           stats = stats_default c, polls = 0 \<rparr>)"

section \<open>Step A: the quadratic upper bound\<close>

text \<open>The \<^verbatim>\<open>margin\<close> of the source is the constant 0.\<close>

definition margin :: real_t where
  "margin = Fin 0"

definition upper_bound_violated :: "('lb, 'sl) State \<Rightarrow> bool" where
  "upper_bound_violated st \<longleftrightarrow>
     psi_k st + margin + grad_psi_kTpk st + Fin (1/2) * Lk st * norm_sq_pk st < psi_hat_xk st"

text \<open>One pass of the loop of lines 257 to 276, in iteration \<open>k\<close>.\<close>

definition upper_bound_step :: "('lb, 'sl) Call \<Rightarrow> nat \<Rightarrow> ('lb, 'sl) State \<Rightarrow> ('lb, 'sl) State" where
  "upper_bound_step c k st =
     (let L = Lk st * Fin 2;
          \<sigma> = sigma_k st div Fin 2;
          \<gamma> = gamma_k st div Fin 2;
          lb = (if 0 < k \<and> \<not> specialized_lbfgs (params c)
                then LBFGS_reset (ops c) (lbfgs st) else lbfgs st);
          (xhat, p, progress) = calc_xhat (problem c) \<gamma> (xk st) (grad_psi_k st);
          gTp = dot (grad_psi_k st) p;
          nsq = squaredNorm p;
          (\<psi>hat, yhat) = calc_psi_yhat (problem c) xhat (y_in c) (Sigma_in c)
      in st\<lparr> Lk := L, sigma_k := \<sigma>, gamma_k := \<gamma>, lbfgs := lb, xhat_k := xhat, pk := p,
             grad_psi_kTpk := gTp, norm_sq_pk := nsq, psi_hat_xk := \<psi>hat, yhat_xhat_k := yhat \<rparr>)"

text \<open>The \<^verbatim>\<open>while\<close> loop of lines 257 to 276.  Nothing bounds the number of its
  passes, so a run that never leaves it has the value \<open>None\<close>.\<close>

partial_function (option) upper_bound_loop ::
  "('lb, 'sl) Call \<Rightarrow> nat \<Rightarrow> ('lb, 'sl) State \<Rightarrow> ('lb, 'sl) State option" where
  "upper_bound_loop c k st =
     (if upper_bound_violated st then upper_bound_loop c k (upper_bound_step c k st)
      else Some st)"

definition step_A :: "('lb, 'sl) Call \<Rightarrow> nat \<Rightarrow> ('lb, 'sl) State \<Rightarrow> ('lb, 'sl) State option" where
  "step_A c k st =
     (if k = 0 \<or> update_lipschitz_in_linesearch (params c) = False
      then upper_bound_loop c k st else Some st)"

section \<open>Steps B and C: the stopping residual and the termination tests\<close>

text \<open>Lines 279 to 289: the specialised L-BFGS is initialised in iteration 0,
  \<open>\<nabla>\<psi>(xhat_k)\<close> is computed from the cached \<open>yhat_xhat_k\<close>, then the residual.\<close>

definition step_B :: "('lb, 'sl) Call \<Rightarrow> nat \<Rightarrow> ('lb, 'sl) State \<Rightarrow> ('lb, 'sl) State" where
  "step_B c k st =
     (let sl = (if specialized_lbfgs (params c) = True \<and> k = 0
                then SLBFGS_initialize (ops c) (slbfgs st) (xk st) (grad_psi_k st) (xhat_k st) (gamma_k st)
                else slbfgs st)
      in st\<lparr> slbfgs := sl,
             grad_hat_psi_k := calc_grad_psi_from_yhat (problem c) (xhat_k st) (yhat_xhat_k st) \<rparr>)"

definition eps_k :: "('lb, 'sl) State \<Rightarrow> real_t" where
  "eps_k st = calc_error_stop_crit (pk st) (gamma_k st) (grad_hat_psi_k st) (grad_psi_k st)"

text \<open>\<^verbatim>\<open>time_elapsed > params.max_time\<close> compares nanoseconds with microseconds;
  \<^verbatim>\<open>duration_cast<microseconds>\<close> truncates.\<close>

definition out_of_time :: "('lb, 'sl) Call \<Rightarrow> nat \<Rightarrow> bool" where
  "out_of_time c k \<longleftrightarrow> max_time (params c) * 1000 < time_elapsed_at c k"

definition duration_cast_microseconds :: "int \<Rightarrow> int" where
  "duration_cast_microseconds t = (if 0 \<le> t then t div 1000 else - ((- t) div 1000))"

text \<open>The statistics written by each of the three returning branches.\<close>

definition fill_stats :: "('lb, 'sl) Call \<Rightarrow> nat \<Rightarrow> ('lb, 'sl) State \<Rightarrow> SolverStatus \<Rightarrow> Stats" where
  "fill_stats c k st stat =
     (stats st)\<lparr> iterations := k, stats_eps := eps_k st,
                 elapsed_time := duration_cast_microseconds (time_elapsed_at c k),
                 status := stat \<rparr>"

text \<open>The outputs written by lines 337 to 339 and 370 to 372: \<open>(z, err_z)\<close> from
  \<open>calc_zhat\<close> at \<open>xhat_k\<close> with the \<open>y\<close> of the caller, then \<open>x\<close> and \<open>y\<close>.\<close>

definition write_outputs :: "('lb, 'sl) Call \<Rightarrow> ('lb, 'sl) State \<Rightarrow> Stats \<Rightarrow> nat \<Rightarrow> Result" where
  "write_outputs c st s n =
     (let (z, err_z) = calc_zhat (problem c) (xhat_k st) (y_in c) (Sigma_in c)
      in \<lparr> res_x = xhat_k st, res_z = z, res_y = yhat_xhat_k st, res_err_z = err_z,
           res_stats = s, res_polls = n \<rparr>)"

text \<open>The outputs as the caller sees them when the call returns without writing
  them: \<open>x\<close> holds what the call left in it, \<open>y\<close>, \<open>z\<close>, \<open>err_z\<close> their contents on
  entry.\<close>

definition keep_outputs :: "('lb, 'sl) Call \<Rightarrow> vec \<Rightarrow> Stats \<Rightarrow> nat \<Rightarrow> Result" where
  "keep_outputs c x s n =
     \<lparr> res_x = x, res_z = z_in c, res_y = y_in c, res_err_z = err_z_in c,
       res_stats = s, res_polls = n \<rparr>"

text \<open>Lines 301 to 379, on the state after \<open>step_B\<close>.\<close>

definition stop_check :: "('lb, 'sl) Call \<Rightarrow> nat \<Rightarrow> ('lb, 'sl) State \<Rightarrow> ('lb, 'sl) Step" where
  "stop_check c k st =
     (if eps_k st \<le> eps_tol c \<or> k = max_iter (params c) \<or> out_of_time c k then
        Return (write_outputs c st
                 (fill_stats c k st
                    (if eps_k st \<le> eps_tol c then Converged
                     else if out_of_time c k then MaxTime else MaxIter))
                 (polls st))
      else if \<not> isfinite (eps_k st) then
        Return (keep_outputs c (x_caller st) (fill_stats c k st NotFinite) (polls st))
      else if stop_signal_at c k then
        Return (write_outputs c st (fill_stats c k st Interrupted) (polls st + 1))
      else Continue (st\<lparr> polls := polls st + 1 \<rparr>))"

section \<open>Step D: the quasi-Newton direction\<close>

text \<open>Lines 381 to 401.  The result is the state and the initial \<open>tau\<close>.\<close>

definition quasi_newton ::
  "('lb, 'sl) Call \<Rightarrow> nat \<Rightarrow> ('lb, 'sl) State \<Rightarrow> ('lb, 'sl) State \<times> real_t" where
  "quasi_newton c k st =
     (let st1 =
            (if 0 < k then
               (if specialized_lbfgs (params c)
                then (let (q, sl) = SLBFGS_apply (ops c) (slbfgs st) (pk st)
                      in st\<lparr> qk := q, slbfgs := sl \<rparr>)
                else (let (q, lb) = LBFGS_apply (ops c) (lbfgs st) (pk st)
                      in st\<lparr> qk := q, lbfgs := lb \<rparr>))
             else st)
      in if k = 0 then (st1, Fin 0)
         else if hasNaN (qk st1) then
           (if specialized_lbfgs (params c)
            then st1\<lparr> stats := (stats st1)\<lparr> lbfgs_failures := lbfgs_failures (stats st1) + 1 \<rparr>,
                      slbfgs := SLBFGS_reset (ops c) (slbfgs st1) \<rparr>
            else st1\<lparr> stats := (stats st1)\<lparr> lbfgs_failures := lbfgs_failures (stats st1) + 1 \<rparr>,
                      lbfgs := LBFGS_reset (ops c) (lbfgs st1) \<rparr>,
            Fin 0)
         else (st1, Fin 1))"

section \<open>Step E: the line search\<close>

text \<open>Line 388.\<close>

definition sigma_norm_gamma_inv_pk :: "('lb, 'sl) State \<Rightarrow> real_t" where
  "sigma_norm_gamma_inv_pk st = sigma_k st * norm_sq_pk st div (gamma_k st * gamma_k st)"

text \<open>Lines 405 to 429 of one pass of the \<^verbatim>\<open>do\<close> loop, for the current \<open>tau\<close>: the
  candidate \<open>xk1\<close> (a swap with \<open>xhat_k\<close> when \<open>tau / 2 < tau_min\<close>), then \<open>\<psi>\<close>, \<open>\<nabla>\<psi>\<close>,
  the projected gradient step and \<open>\<psi>\<close> there.  \<open>phi_k1\<close> and \<open>ls_cond\<close> are assigned
  at the end of the pass; until then they hold what the previous pass left.\<close>

definition ls_candidate ::
  "('lb, 'sl) Call \<Rightarrow> ('lb, 'sl) State \<Rightarrow> LineSearch \<Rightarrow> ('lb, 'sl) State \<times> LineSearch" where
  "ls_candidate c st lv =
     (let st1 = (if tau lv div Fin 2 < tau_min (params c)
                 then st\<lparr> xk1 := xhat_k st, xhat_k := xk1 st \<rparr>
                 else st\<lparr> xk1 := vadd (vadd (xk st) (smul (Fin 1 - tau lv) (pk st)))
                                        (smul (tau lv) (qk st)) \<rparr>);
          (\<psi>1, g1) = calc_psi_grad_psi (problem c) (xk1 st1) (y_in c) (Sigma_in c);
          (xhat1, p1, progress) = calc_xhat (problem c) (gamma_k st) (xk1 st1) g1;
          (\<psi>hat1, yhat1) = calc_psi_yhat (problem c) xhat1 (y_in c) (Sigma_in c)
      in (st1\<lparr> grad_psi_k1 := g1, xhat_k1 := xhat1, pk1 := p1, yhat_xhat_k1 := yhat1 \<rparr>,
          lv\<lparr> Lk1 := Lk st, sigma_k1 := sigma_k st, gamma_k1 := gamma_k st, psi_k1 := \<psi>1, psi_hat_xk1 := \<psi>hat1,
              grad_psi_k1Tpk1 := dot g1 p1, norm_sq_pk1 := squaredNorm p1 \<rparr>))"

definition ls_upper_bound_violated :: "LineSearch \<Rightarrow> bool" where
  "ls_upper_bound_violated lv \<longleftrightarrow>
     psi_k1 lv + margin + grad_psi_k1Tpk1 lv + Fin (1/2) * Lk1 lv * norm_sq_pk1 lv < psi_hat_xk1 lv"

text \<open>One pass of the inner loop of lines 432 to 450.\<close>

definition ls_upper_bound_step ::
  "('lb, 'sl) Call \<Rightarrow> ('lb, 'sl) State \<times> LineSearch \<Rightarrow> ('lb, 'sl) State \<times> LineSearch" where
  "ls_upper_bound_step c sl =
     (let st = fst sl; lv = snd sl;
          L = Lk1 lv * Fin 2;
          \<sigma> = sigma_k1 lv div Fin 2;
          \<gamma> = gamma_k1 lv div Fin 2;
          lb = (if specialized_lbfgs (params c) = False
                then LBFGS_reset (ops c) (lbfgs st) else lbfgs st);
          (xhat1, p1, progress) = calc_xhat (problem c) \<gamma> (xk1 st) (grad_psi_k1 st);
          gTp = dot (grad_psi_k1 st) p1;
          nsq = squaredNorm p1;
          (\<psi>hat1, yhat1) = calc_psi_yhat (problem c) xhat1 (y_in c) (Sigma_in c)
      in (st\<lparr> lbfgs := lb, xhat_k1 := xhat1, pk1 := p1, yhat_xhat_k1 := yhat1 \<rparr>,
          lv\<lparr> Lk1 := L, sigma_k1 := \<sigma>, gamma_k1 := \<gamma>, grad_psi_k1Tpk1 := gTp, norm_sq_pk1 := nsq,
              psi_hat_xk1 := \<psi>hat1 \<rparr>))"

partial_function (option) ls_upper_bound_loop ::
  "('lb, 'sl) Call \<Rightarrow> ('lb, 'sl) State \<times> LineSearch \<Rightarrow> (('lb, 'sl) State \<times> LineSearch) option" where
  "ls_upper_bound_loop c sl =
     (if ls_upper_bound_violated (snd sl) then ls_upper_bound_loop c (ls_upper_bound_step c sl)
      else Some sl)"

text \<open>Lines 453 to 458: the forward-backward envelope at the candidate, the halving
  of \<open>tau\<close>, and \<open>ls_cond\<close> against the envelope \<open>phi_k\<close> of the current iterate.\<close>

definition ls_finish :: "real_t \<Rightarrow> real_t \<Rightarrow> LineSearch \<Rightarrow> LineSearch" where
  "ls_finish \<phi> \<sigma>n lv =
     (let \<phi>1 = psi_k1 lv + Fin 1 div (Fin 2 * gamma_k1 lv) * norm_sq_pk1 lv + grad_psi_k1Tpk1 lv
      in lv\<lparr> phi_k1 := \<phi>1, tau := tau lv div Fin 2, ls_cond := \<phi>1 - (\<phi> - \<sigma>n) \<rparr>)"

text \<open>One pass of the \<^verbatim>\<open>do\<close> loop, lines 405 to 458; \<open>\<sigma>n\<close> is the value of line 388.\<close>

definition ls_pass ::
  "('lb, 'sl) Call \<Rightarrow> real_t \<Rightarrow> ('lb, 'sl) State \<times> LineSearch
     \<Rightarrow> (('lb, 'sl) State \<times> LineSearch) option" where
  "ls_pass c \<sigma>n sl =
     map_option (\<lambda>(st, lv). (st, ls_finish (phi_k st) \<sigma>n lv))
       (if update_lipschitz_in_linesearch (params c) = True
        then ls_upper_bound_loop c (ls_candidate c (fst sl) (snd sl))
        else Some (ls_candidate c (fst sl) (snd sl)))"

definition ls_continue :: "('lb, 'sl) Call \<Rightarrow> LineSearch \<Rightarrow> bool" where
  "ls_continue c lv \<longleftrightarrow> Fin 0 < ls_cond lv \<and> tau_min (params c) \<le> tau lv"

text \<open>The \<^verbatim>\<open>do \<dots> while (ls_cond > 0 && tau >= tau_min)\<close> loop.\<close>

partial_function (option) ls_loop ::
  "('lb, 'sl) Call \<Rightarrow> real_t \<Rightarrow> ('lb, 'sl) State \<times> LineSearch
     \<Rightarrow> (('lb, 'sl) State \<times> LineSearch) option" where
  "ls_loop c \<sigma>n sl =
     Option.bind (ls_pass c \<sigma>n sl)
       (\<lambda>sl'. if ls_continue c (snd sl') then ls_loop c \<sigma>n sl' else Some sl')"

text \<open>The line search of one iteration, lines 388 to 459, from the state and the
  \<open>tau\<close> that \<open>quasi_newton\<close> leaves.\<close>

definition line_search ::
  "('lb, 'sl) Call \<Rightarrow> ('lb, 'sl) State \<Rightarrow> real_t \<Rightarrow> (('lb, 'sl) State \<times> LineSearch) option" where
  "line_search c st \<tau>0 =
     ls_loop c (sigma_norm_gamma_inv_pk st)
       (st, \<lparr> phi_k1 = uninit_t c, psi_k1 = uninit_t c, psi_hat_xk1 = uninit_t c,
              grad_psi_k1Tpk1 = uninit_t c, norm_sq_pk1 = uninit_t c, tau = \<tau>0,
              Lk1 = uninit_t c, sigma_k1 = uninit_t c, gamma_k1 = uninit_t c,
              ls_cond = uninit_t c \<rparr>)"

section \<open>Steps F and G: L-BFGS update and advance\<close>

text \<open>Lines 461 to 464.\<close>

definition count_linesearch_failure ::
  "('lb, 'sl) Call \<Rightarrow> nat \<Rightarrow> LineSearch \<Rightarrow> ('lb, 'sl) State \<Rightarrow> ('lb, 'sl) State" where
  "count_linesearch_failure c k lv st =
     (if tau lv < tau_min (params c) \<and> k \<noteq> 0
      then st\<lparr> stats := (stats st)\<lparr> linesearch_failures := linesearch_failures (stats st) + 1 \<rparr> \<rparr>
      else st)"

text \<open>Lines 466 to 470.\<close>

definition update_lbfgs ::
  "('lb, 'sl) Call \<Rightarrow> LineSearch \<Rightarrow> ('lb, 'sl) State \<Rightarrow> ('lb, 'sl) State" where
  "update_lbfgs c lv st =
     (if specialized_lbfgs (params c) then
        (let (ok, sl) = SLBFGS_update (ops c) (slbfgs st) (xk1 st) (grad_psi_k1 st) (xhat_k1 st)
                          (C (problem c)) (gamma_k1 lv)
         in st\<lparr> slbfgs := sl,
                stats := (stats st)\<lparr> lbfgs_rejected :=
                           lbfgs_rejected (stats st) + (if ok then 0 else 1) \<rparr> \<rparr>)
      else
        (let (ok, lb) = LBFGS_update (ops c) (lbfgs st) (vsub (xk1 st) (xk st))
                          (vsub (pk st) (pk1 st))
         in st\<lparr> lbfgs := lb,
                stats := (stats st)\<lparr> lbfgs_rejected :=
                           lbfgs_rejected (stats st) + (if ok then 0 else 1) \<rparr> \<rparr>))"

text \<open>Lines 472 to 487.\<close>

definition advance :: "LineSearch \<Rightarrow> ('lb, 'sl) State \<Rightarrow> ('lb, 'sl) State" where
  "advance lv st =
     st\<lparr> Lk := Lk1 lv, sigma_k := sigma_k1 lv, gamma_k := gamma_k1 lv,
         psi_k := psi_k1 lv, psi_hat_xk := psi_hat_xk1 lv, phi_k := phi_k1 lv,
         xk := xk1 st, xk1 := xk st,
         xhat_k := xhat_k1 st, xhat_k1 := xhat_k st,
         yhat_xhat_k := yhat_xhat_k1 st, yhat_xhat_k1 := yhat_xhat_k st,
         pk := pk1 st, pk1 := pk st,
         grad_psi_k := grad_psi_k1 st, grad_psi_k1 := grad_psi_k st,
         grad_psi_kTpk := grad_psi_k1Tpk1 lv, norm_sq_pk := norm_sq_pk1 lv \<rparr>"

section \<open>The main loop and the solver\<close>

text \<open>Lines 381 to 487: what an iteration does once the termination tests have
  let it pass.\<close>

definition steps_D_to_G ::
  "('lb, 'sl) Call \<Rightarrow> nat \<Rightarrow> ('lb, 'sl) State \<Rightarrow> ('lb, 'sl) State option" where
  "steps_D_to_G c k st =
     (let (st1, \<tau>0) = quasi_newton c k st
      in map_option
           (\<lambda>(st2, lv). advance lv (update_lbfgs c lv (count_linesearch_failure c k lv st2)))
           (line_search c st1 \<tau>0))"

text \<open>The body of the \<^verbatim>\<open>for\<close> loop, lines 255 to 487, in iteration \<open>k\<close>.\<close>

definition iteration :: "('lb, 'sl) Call \<Rightarrow> nat \<Rightarrow> ('lb, 'sl) State \<Rightarrow> ('lb, 'sl) Step option" where
  "iteration c k st =
     Option.bind (step_A c k st)
       (\<lambda>st1. case stop_check c k (step_B c k st1) of
                 Return r \<Rightarrow> Some (Return r)
               | Continue st2 \<Rightarrow> map_option Continue (steps_D_to_G c k st2))"

text \<open>The \<^verbatim>\<open>for (unsigned k = 0; k <= params.max_iter; ++k)\<close> loop from iteration
  \<open>k\<close> on, and the \<^verbatim>\<open>throw\<close> behind it.\<close>

function main_loop :: "('lb, 'sl) Call \<Rightarrow> nat \<Rightarrow> ('lb, 'sl) State \<Rightarrow> Outcome option" where
  "main_loop c k st =
     (if k \<le> max_iter (params c) then
        (case iteration c k st of
           None \<Rightarrow> None
         | Some (Return r) \<Rightarrow> Some (Returns r)
         | Some (Continue st') \<Rightarrow> main_loop c (k + 1) st')
      else Some Throws_logic_error)"
  by pat_completeness auto
termination
  by (relation "measure (\<lambda>(c, k, st). Suc (max_iter (params c)) - k)") auto

text \<open>\<^verbatim>\<open>PANOCSolver::operator()\<close>, called with \<open>x\<close>.\<close>

definition panoc :: "('lb, 'sl) Call \<Rightarrow> vec \<Rightarrow> Outcome option" where
  "panoc c x =
     (let (h, x', g1, \<psi>0, g0, L) = lipschitz_estimate c x
      in if L < epsilon then main_loop c 0 (initial_state c x x' g1 \<psi>0 g0 epsilon)
         else if \<not> isfinite L then
           Some (Returns (keep_outputs c x' ((stats_default c)\<lparr> status := NotFinite \<rparr>) 0))
         else main_loop c 0 (initial_state c x x' g1 \<psi>0 g0 L))"

section \<open>Auxiliary definitions\<close>

text \<open>A scalar that is not negative: a finite real \<open>\<ge> 0\<close>, \<open>+\<infinity>\<close> or NaN (norms
  and their quotients have this form).\<close>

fun nonneg_t :: "real_t \<Rightarrow> bool" where
  "nonneg_t (Fin r) = (0 \<le> r)"
| "nonneg_t PInf = True"
| "nonneg_t MInf = False"
| "nonneg_t NaN = True"



section \<open>Example instances\<close>

text \<open>
  Modelled from the spec: the class \<^verbatim>\<open>LBFGS\<close> of \<^verbatim>\<open>panoc-alm/lbfgs.hpp\<close>, which is
  not among the sources.  The buffer is its capacity and the stored pairs \<open>(s, y)\<close>,
  newest first.  \<open>update\<close> rejects a pair with a non-finite entry or with
  \<open>\<langle>s, y\<rangle> \<le> \<epsilon>\<^sub>m\<^sub>a\<^sub>c\<^sub>h \<parallel>y\<parallel> \<parallel>s\<parallel>\<close> and otherwise stores it, evicting the oldest pair at
  capacity.  \<open>apply\<close> is the two-loop recursion and leaves \<open>q\<close> as it is when the
  buffer is empty.
\<close>

type_synonym lbfgs_buffer = "nat \<times> (vec \<times> vec) list"

definition spec_lbfgs_update :: "lbfgs_buffer \<Rightarrow> vec \<Rightarrow> vec \<Rightarrow> bool \<times> lbfgs_buffer" where
  "spec_lbfgs_update b s y =
     (if list_all isfinite s \<and> list_all isfinite y \<and> epsilon * norm_t y * norm_t s < dot s y
      then (True, (fst b, take (fst b) ((s, y) # snd b)))
      else (False, b))"

fun first_loop :: "(vec \<times> vec) list \<Rightarrow> vec \<Rightarrow> vec \<times> real_t list" where
  "first_loop [] q = (q, [])"
| "first_loop ((s, y) # ps) q =
     (let \<alpha> = (Fin 1 div dot y s) * dot s q;
          (q', \<alpha>s) = first_loop ps (vsub q (smul \<alpha> y))
      in (q', \<alpha> # \<alpha>s))"

fun second_loop :: "((vec \<times> vec) \<times> real_t) list \<Rightarrow> vec \<Rightarrow> vec" where
  "second_loop [] q = q"
| "second_loop (((s, y), \<alpha>) # ps) q =
     (let \<beta> = (Fin 1 div dot y s) * dot y q
      in second_loop ps (vadd q (smul (\<alpha> - \<beta>) s)))"

definition spec_lbfgs_apply :: "lbfgs_buffer \<Rightarrow> vec \<Rightarrow> vec \<times> lbfgs_buffer" where
  "spec_lbfgs_apply b q =
     (case snd b of
        [] \<Rightarrow> (q, b)
      | (s, y) # ps \<Rightarrow>
          (let (q1, \<alpha>s) = first_loop (snd b) q;
               q2 = smul (dot s y div dot y y) q1
           in (second_loop (rev (zip (snd b) \<alpha>s)) q2, b)))"

text \<open>The operations of the examples: the \<^verbatim>\<open>LBFGS\<close> above; the specialised variant,
  which the examples do not select, is a dummy.\<close>

definition spec_ops :: "(lbfgs_buffer, unit) LBFGS_ops" where
  "spec_ops =
     \<lparr> LBFGS_new = (0, []), LBFGS_resize = (\<lambda>b n m. (m, [])),
       LBFGS_reset = (\<lambda>b. (fst b, [])),
       LBFGS_apply = spec_lbfgs_apply, LBFGS_update = spec_lbfgs_update,
       SLBFGS_new = (), SLBFGS_resize = (\<lambda>b n m. ()),
       SLBFGS_initialize = (\<lambda>b x gr xh \<gamma>. ()), SLBFGS_reset = (\<lambda>b. ()),
       SLBFGS_apply = (\<lambda>b q. (q, ())), SLBFGS_update = (\<lambda>b x gr xh box \<gamma>. (False, ())) \<rparr>"

text \<open>
  Problems in one variable on the box \<open>[lo, hi]\<close> with the one constraint function
  \<open>g(x) = x\<close> and \<open>D\<close> the whole line, so that \<open>\<psi>\<close> is \<open>f\<close>.  The objective is
  \<open>x\<^sup>2 / 8\<close> where \<open>inside\<close> holds and \<open>out\<close> elsewhere; its gradient is \<open>x / 4\<close>
  where \<open>inside\<close> holds and \<open>gout\<close> elsewhere.
\<close>

definition piece_problem ::
  "(real_t \<Rightarrow> bool) \<Rightarrow> real_t \<Rightarrow> real_t \<Rightarrow> real_t \<Rightarrow> real_t \<Rightarrow> Problem" where
  "piece_problem inside out gout lo hi =
     \<lparr> C = \<lparr> upperbound = [hi], lowerbound = [lo] \<rparr>,
       D = \<lparr> upperbound = [PInf], lowerbound = [MInf] \<rparr>,
       f = (\<lambda>x. case x of [t] \<Rightarrow> (if inside t then Fin (1/8) * t * t else out) | _ \<Rightarrow> NaN),
       grad_f = (\<lambda>x. map (\<lambda>t. if inside t then Fin (1/4) * t else gout) x),
       g = (\<lambda>x. x),
       grad_g = (\<lambda>x v. v) \<rparr>"

text \<open>The quadratic on the whole line; the quadratic with an oracle that returns NaN
  left of \<open>3/4\<close>; the quadratic with a plateau of height 10 left of \<open>3/4\<close>; an oracle
  that returns NaN everywhere.\<close>

definition quad_problem :: "real_t \<Rightarrow> real_t \<Rightarrow> Problem" where
  "quad_problem lo hi = piece_problem (\<lambda>t. True) NaN NaN lo hi"

definition partial_problem :: Problem where
  "partial_problem = piece_problem (\<lambda>t. Fin (3/4) \<le> t) NaN NaN MInf PInf"

definition plateau_problem :: Problem where
  "plateau_problem = piece_problem (\<lambda>t. Fin (3/4) \<le> t) (Fin 10) (Fin 0) MInf PInf"

definition nan_problem :: Problem where
  "nan_problem = piece_problem (\<lambda>t. False) NaN NaN MInf PInf"

text \<open>Parameters with powers of two for the finite difference and the step-size
  factor, for the iteration limit \<open>mi\<close> and the time limit \<open>mt\<close>.\<close>

definition example_params :: "nat \<Rightarrow> int \<Rightarrow> PANOCParams" where
  "example_params mi mt =
     \<lparr> Lipschitz = \<lparr> Lipschitz_eps = Fin (1/1024), Lipschitz_delta = Fin (1/1048576),
                     Lgamma_factor = Fin (1/2) \<rparr>,
       lbfgs_mem = 10, specialized_lbfgs = False, update_lipschitz_in_linesearch = True,
       max_iter = mi, max_time = mt, tau_min = Fin (1/256), print_interval = 0 \<rparr>"

definition example_stats :: Stats where
  "example_stats =
     \<lparr> iterations = 0, stats_eps = PInf, elapsed_time = 0, status = MaxIter,
       linesearch_failures = 0, lbfgs_failures = 0, lbfgs_rejected = 0 \<rparr>"

text \<open>A call on problem \<open>p\<close> with tolerance \<open>tol\<close>, a clock and a stop signal,
  with \<open>y = \<Sigma> = (1)\<close> and the value 7 in \<open>z\<close> and \<open>err_z\<close> on entry.\<close>

definition example_call ::
  "Problem \<Rightarrow> PANOCParams \<Rightarrow> real_t \<Rightarrow> (nat \<Rightarrow> int) \<Rightarrow> (nat \<Rightarrow> bool) \<Rightarrow> (lbfgs_buffer, unit) Call" where
  "example_call p pa tol clock stop =
     \<lparr> params = pa, problem = p, y_in = [Fin 1], Sigma_in = [Fin 1], eps_tol = tol,
       z_in = [Fin 7], err_z_in = [Fin 7], ops = spec_ops,
       time_elapsed_at = clock, stop_signal_at = stop,
       stats_default = example_stats, uninit = [NaN], uninit_t = NaN \<rparr>"

text \<open>The calls of the examples, all from \<open>x = (1)\<close>: the quadratic with iteration
  limit 0 and the time limit exceeded at the first reading of the clock; the quadratic
  with the stop signal set; the quadratic run to tolerance \<open>1/4\<close>; the oracle with NaN
  left of \<open>3/4\<close>; the plateau; the oracle that is NaN everywhere.\<close>

definition late_call :: "(lbfgs_buffer, unit) Call" where
  "late_call = example_call (quad_problem MInf PInf) (example_params 0 0) (Fin (1/1024))
                 (\<lambda>k. 5000) (\<lambda>k. False)"

definition stopped_call :: "(lbfgs_buffer, unit) Call" where
  "stopped_call = example_call (quad_problem MInf PInf) (example_params 10 1) (Fin (1/1024))
                    (\<lambda>k. 500) (\<lambda>k. True)"

definition quad_call :: "(lbfgs_buffer, unit) Call" where
  "quad_call = example_call (quad_problem MInf PInf) (example_params 10 1) (Fin (1/4))
                 (\<lambda>k. 5000 * int k) (\<lambda>k. False)"

definition partial_call :: "(lbfgs_buffer, unit) Call" where
  "partial_call = example_call partial_problem (example_params 10 1) (Fin (1/1024))
                    (\<lambda>k. 5000 * int k) (\<lambda>k. False)"

definition plateau_call :: "(lbfgs_buffer, unit) Call" where
  "plateau_call = example_call plateau_problem (example_params 10 1) (Fin (1/1024))
                    (\<lambda>k. 5000 * int k) (\<lambda>k. False)"

definition nan_call :: "(lbfgs_buffer, unit) Call" where
  "nan_call = example_call nan_problem (example_params 10 1) (Fin (1/1024))
                (\<lambda>k. 5000 * int k) (\<lambda>k. False)"

text \<open>The state in which all of them except the last enter iteration 0.\<close>

definition state0 :: "(lbfgs_buffer, unit) State" where
  "state0 =
     \<lparr> x_caller = [Fin (1025/1024)], xk = [Fin 1], xhat_k = [Fin (1/2)], xk1 = [NaN],
       xhat_k1 = [NaN], yhat_xhat_k = [Fin 0], yhat_xhat_k1 = [NaN], pk = [Fin (- (1/2))],
       pk1 = [NaN], qk = [NaN], grad_psi_k = [Fin (1/4)], grad_hat_psi_k = [NaN],
       grad_psi_k1 = [Fin (1025/4096)], psi_k = Fin (1/8), psi_hat_xk = Fin (1/32),
       phi_k = Fin (1/16), Lk = Fin (1/4), sigma_k = Fin (1/2), gamma_k = Fin 2,
       grad_psi_kTpk = Fin (- (1/8)), norm_sq_pk = Fin (1/4), lbfgs = (10, []), slbfgs = (),
       stats = example_stats, polls = 0 \<rparr>"

text \<open>The states before iteration \<open>k\<close> of the call \<open>c\<close> with \<open>x\<close>, as far as the run
  gets: \<open>None\<close> when the run has returned (or hangs in a loop) before.\<close>

fun state_at :: "('lb, 'sl) Call \<Rightarrow> vec \<Rightarrow> nat \<Rightarrow> ('lb, 'sl) State option" where
  "state_at c x 0 =
     (let (h, x', g1, \<psi>0, g0, L) = lipschitz_estimate c x
      in if L < epsilon then Some (initial_state c x x' g1 \<psi>0 g0 epsilon)
         else if \<not> isfinite L then None
         else Some (initial_state c x x' g1 \<psi>0 g0 L))"
| "state_at c x (Suc k) =
     (case state_at c x k of
        None \<Rightarrow> None
      | Some st \<Rightarrow>
          (case iteration c k st of
             Some (Continue st') \<Rightarrow> Some st'
           | _ \<Rightarrow> None))"

section \<open>Invariants of the state\<close>

text \<open>The cached values belong to the iterate: \<open>psi_k\<close> and \<open>grad_psi_k\<close> are \<open>\<psi>\<close> and
  \<open>\<nabla>\<psi>\<close> at \<open>xk\<close>; \<open>xhat_k\<close> and \<open>pk\<close> are the projected gradient step from \<open>xk\<close>
  with step size \<open>gamma_k\<close>; \<open>psi_hat_xk\<close> and \<open>yhat_xhat_k\<close> are \<open>\<psi>\<close> and the vector
  \<open>y\<close> at \<open>xhat_k\<close>; and the two cached products.  The same for the candidate of the
  line search.\<close>

definition consistent :: "('lb, 'sl) Call \<Rightarrow> ('lb, 'sl) State \<Rightarrow> bool" where
  "consistent c st \<longleftrightarrow>
     (psi_k st, grad_psi_k st) = calc_psi_grad_psi (problem c) (xk st) (y_in c) (Sigma_in c) \<and>
     xhat_k st = fst (calc_xhat (problem c) (gamma_k st) (xk st) (grad_psi_k st)) \<and>
     pk st = fst (snd (calc_xhat (problem c) (gamma_k st) (xk st) (grad_psi_k st))) \<and>
     (psi_hat_xk st, yhat_xhat_k st) = calc_psi_yhat (problem c) (xhat_k st) (y_in c) (Sigma_in c) \<and>
     grad_psi_kTpk st = dot (grad_psi_k st) (pk st) \<and>
     norm_sq_pk st = squaredNorm (pk st)"

definition ls_consistent :: "('lb, 'sl) Call \<Rightarrow> ('lb, 'sl) State \<times> LineSearch \<Rightarrow> bool" where
  "ls_consistent c sl \<longleftrightarrow>
     (psi_k1 (snd sl), grad_psi_k1 (fst sl)) =
        calc_psi_grad_psi (problem c) (xk1 (fst sl)) (y_in c) (Sigma_in c) \<and>
     xhat_k1 (fst sl) =
        fst (calc_xhat (problem c) (gamma_k1 (snd sl)) (xk1 (fst sl)) (grad_psi_k1 (fst sl))) \<and>
     pk1 (fst sl) =
        fst (snd (calc_xhat (problem c) (gamma_k1 (snd sl)) (xk1 (fst sl)) (grad_psi_k1 (fst sl)))) \<and>
     (psi_hat_xk1 (snd sl), yhat_xhat_k1 (fst sl)) =
        calc_psi_yhat (problem c) (xhat_k1 (fst sl)) (y_in c) (Sigma_in c) \<and>
     grad_psi_k1Tpk1 (snd sl) = dot (grad_psi_k1 (fst sl)) (pk1 (fst sl)) \<and>
     norm_sq_pk1 (snd sl) = squaredNorm (pk1 (fst sl))"

text \<open>The variables that the upper-bound fit of Step A does not assign, and those
  that the line search does not assign.\<close>

definition frame_A :: "('lb, 'sl) State \<Rightarrow> _" where
  "frame_A st = (x_caller st, xk st, xk1 st, xhat_k1 st, yhat_xhat_k1 st, pk1 st, qk st,
                 grad_psi_k st, grad_hat_psi_k st, grad_psi_k1 st, psi_k st, phi_k st, slbfgs st,
                 stats st, polls st)"

definition frame_E :: "('lb, 'sl) State \<Rightarrow> _" where
  "frame_E st = (x_caller st, xk st, yhat_xhat_k st, pk st, qk st, grad_psi_k st,
                 grad_hat_psi_k st, psi_k st, psi_hat_xk st, phi_k st, Lk st, sigma_k st, gamma_k st,
                 grad_psi_kTpk st, norm_sq_pk st, slbfgs st, stats st, polls st)"

text \<open>The state in which the quadratic enters iteration 1, and what \<open>quad_call\<close>
  returns there.\<close>

definition state1 :: "(lbfgs_buffer, unit) State" where
  "state1 =
     \<lparr> x_caller = [Fin (1025/1024)], xk = [Fin (1/2)], xhat_k = [Fin (1/4)], xk1 = [Fin 1],
       xhat_k1 = [NaN], yhat_xhat_k = [Fin 0], yhat_xhat_k1 = [Fin 0], pk = [Fin (- (1/4))],
       pk1 = [Fin (- (1/2))], qk = [NaN], grad_psi_k = [Fin (1/8)], grad_hat_psi_k = [Fin (1/8)],
       grad_psi_k1 = [Fin (1/4)], psi_k = Fin (1/32), psi_hat_xk = Fin (1/128),
       phi_k = Fin (1/64), Lk = Fin (1/4), sigma_k = Fin (1/2), gamma_k = Fin 2,
       grad_psi_kTpk = Fin (- (1/32)), norm_sq_pk = Fin (1/16),
       lbfgs = (10, [([Fin (- (1/2))], [Fin (- (1/4))])]), slbfgs = (),
       stats = example_stats, polls = 1 \<rparr>"

definition quad_result :: Result where
  "quad_result =
     \<lparr> res_x = [Fin (1/4)], res_z = [Fin (5/4)], res_y = [Fin 0], res_err_z = [Fin (- 1)],
       res_stats = \<lparr> iterations = 1, stats_eps = Fin (3/16), elapsed_time = 5,
                     status = Converged, linesearch_failures = 0, lbfgs_failures = 0,
                     lbfgs_rejected = 0 \<rparr>,
       res_polls = 1 \<rparr>"








text \<open>The state and the variables of the line search with which the quadratic leaves
  the line search of iteration 0, and the state with which the oracle with NaN enters
  iteration 0.\<close>

definition quad_ls_state :: "(lbfgs_buffer, unit) State" where
  "quad_ls_state =
     state0\<lparr> grad_hat_psi_k := [Fin (1/8)], polls := 1, xk1 := [Fin (1/2)],
             xhat_k := [NaN], grad_psi_k1 := [Fin (1/8)], xhat_k1 := [Fin (1/4)],
             pk1 := [Fin (- (1/4))], yhat_xhat_k1 := [Fin 0] \<rparr>"

definition quad_ls_vars :: LineSearch where
  "quad_ls_vars =
     \<lparr> phi_k1 = Fin (1/64), psi_k1 = Fin (1/32), psi_hat_xk1 = Fin (1/128),
       grad_psi_k1Tpk1 = Fin (- (1/32)), norm_sq_pk1 = Fin (1/16), tau = Fin 0,
       Lk1 = Fin (1/4), sigma_k1 = Fin (1/2), gamma_k1 = Fin 2, ls_cond = Fin (- (1/64)) \<rparr>"


text \<open>The decrease \<open>\<sigma>\<^sub>k \<parallel>p\<^sub>k\<parallel>\<^sup>2 / \<gamma>\<^sub>k\<^sup>2 \<cdot> \<gamma>\<^sub>k\<close> that the specification writes in its
  acceptance test, to compare with \<open>sigma_norm_gamma_inv_pk\<close>.\<close>

definition spec_sufficient_decrease :: "('lb, 'sl) State \<Rightarrow> real_t" where
  "spec_sufficient_decrease st =
     sigma_k st * norm_sq_pk st div (gamma_k st * gamma_k st) * gamma_k st"
section \<open>Facts about scalars and vectors\<close>

lemma nonneg_t_square: "nonneg_t (a * a)"
  by (cases a) auto

lemma nonneg_t_plus: "nonneg_t a \<Longrightarrow> nonneg_t b \<Longrightarrow> nonneg_t (a + b)"
  by (cases a; cases b) auto

lemma nonneg_t_foldl:
  "nonneg_t acc \<Longrightarrow> \<forall>a\<in>set v. nonneg_t a \<Longrightarrow> nonneg_t (foldl (+) acc v)"
  by (induction v arbitrary: acc) (auto intro: nonneg_t_plus)

lemma nonneg_t_squaredNorm: "nonneg_t (squaredNorm v)"
  unfolding squaredNorm_def vsum_def
  by (rule nonneg_t_foldl) (auto simp: nonneg_t_square)

lemma nonneg_t_sqrt: "nonneg_t a \<Longrightarrow> nonneg_t (sqrt_t a)"
  by (cases a) auto

lemma nonneg_t_norm: "nonneg_t (norm_t v)"
  unfolding norm_t_def by (rule nonneg_t_sqrt) (rule nonneg_t_squaredNorm)

lemma nonneg_t_div: "nonneg_t a \<Longrightarrow> nonneg_t b \<Longrightarrow> nonneg_t (a div b)"
  by (cases a; cases b) auto

lemma nonneg_not_finite_not_less: "nonneg_t a \<Longrightarrow> \<not> isfinite a \<Longrightarrow> \<not> a < b"
  by (cases a) auto

lemma plus_Fin_0 [simp]: "a + Fin 0 = a"
  by (cases a) auto

lemma norm_t_single: "norm_t [Fin a] = Fin \<bar>a\<bar>"
  by (simp add: norm_t_def squaredNorm_def vsum_def)

lemmas vec_defs = binaryExpr_def vadd_def vsub_def vdiv_def smul_def vscale_def vsum_def dot_def
  squaredNorm_def cwiseAbs_def cwiseMax_def hasNaN_def project_def projecting_difference_def
  norm_inf_def fmax_def fmin_def minus_real_t_def

lemmas calc_defs = calc_psi_yhat_def calc_grad_psi_from_yhat_def calc_psi_grad_psi_def
  calc_grad_psi_def calc_zhat_def calc_xhat_def calc_error_stop_crit_def

lemma example_call_sel:
  "params (example_call p pa tol clock stop) = pa"
  "problem (example_call p pa tol clock stop) = p"
  "y_in (example_call p pa tol clock stop) = [Fin 1]"
  "Sigma_in (example_call p pa tol clock stop) = [Fin 1]"
  "eps_tol (example_call p pa tol clock stop) = tol"
  "z_in (example_call p pa tol clock stop) = [Fin 7]"
  "err_z_in (example_call p pa tol clock stop) = [Fin 7]"
  "ops (example_call p pa tol clock stop) = spec_ops"
  "time_elapsed_at (example_call p pa tol clock stop) = clock"
  "stop_signal_at (example_call p pa tol clock stop) = stop"
  "stats_default (example_call p pa tol clock stop) = example_stats"
  "uninit (example_call p pa tol clock stop) = [NaN]"
  "uninit_t (example_call p pa tol clock stop) = NaN"
  by (simp_all add: example_call_def)

lemmas call_defs = late_call_def stopped_call_def quad_call_def partial_call_def
  plateau_call_def nan_call_def

lemmas example_defs = spec_ops_def piece_problem_def quad_problem_def partial_problem_def
  plateau_problem_def nan_problem_def example_params_def example_stats_def example_call_def
  late_call_def stopped_call_def quad_call_def partial_call_def plateau_call_def nan_call_def

section \<open>The Lipschitz estimate\<close>

lemma lipschitz_estimate_nonneg:
  "lipschitz_estimate c x = (h, x', g1, \<psi>0, g0, L) \<Longrightarrow> nonneg_t L"
  by (auto simp: lipschitz_estimate_def Let_def split: prod.splits
      intro!: nonneg_t_div nonneg_t_norm)

lemma lipschitz_estimate_x:
  "lipschitz_estimate c x = (h, x', g1, \<psi>0, g0, L) \<Longrightarrow> x' = vadd x h"
  by (auto simp: lipschitz_estimate_def Let_def split: prod.splits)

text \<open>
  Claim C10.  When the finite-difference estimate \<open>L\<close> of the Lipschitz constant is
  not finite, the call returns with status \<open>NotFinite\<close>; the caller's \<open>x\<close> is left at
  the perturbed point \<open>x + h\<close>, \<open>y\<close>, \<open>z\<close> and \<open>err_z\<close> keep their contents on
  entry, and every field of the statistics other than the status keeps its default.
\<close>

theorem lipschitz_not_finite_frame:
  assumes "lipschitz_estimate c x = (h, x', g1, \<psi>0, g0, L)" and "\<not> isfinite L"
  shows "panoc c x =
           Some (Returns \<lparr> res_x = vadd x h, res_z = z_in c, res_y = y_in c,
                           res_err_z = err_z_in c,
                           res_stats = (stats_default c)\<lparr> status := NotFinite \<rparr>,
                           res_polls = 0 \<rparr>)"
proof -
  have "\<not> L < epsilon"
    using assms lipschitz_estimate_nonneg nonneg_not_finite_not_less by blast
  moreover have "x' = vadd x h"
    using assms(1) by (rule lipschitz_estimate_x)
  ultimately show ?thesis
    using assms by (simp add: panoc_def keep_outputs_def)
qed

lemma nan_call_estimate:
  "lipschitz_estimate nan_call [Fin 1]
     = ([Fin (1/1024)], [Fin (1025/1024)], [NaN], NaN, [NaN], NaN)"
  by (simp add: lipschitz_estimate_def example_defs calc_defs vec_defs norm_t_def Let_def)

theorem lipschitz_not_finite_frame_witness:
  "panoc nan_call [Fin 1]
     = Some (Returns \<lparr> res_x = [Fin (1025/1024)], res_z = [Fin 7], res_y = [Fin 1],
                       res_err_z = [Fin 7],
                       res_stats = \<lparr> iterations = 0, stats_eps = PInf, elapsed_time = 0,
                                     status = NotFinite, linesearch_failures = 0,
                                     lbfgs_failures = 0, lbfgs_rejected = 0 \<rparr>,
                       res_polls = 0 \<rparr>)"
  using lipschitz_not_finite_frame [OF nan_call_estimate]
  by (simp add: nan_call_def example_call_sel example_stats_def vadd_def)

section \<open>Unfolding the loops\<close>

lemma upper_bound_loop_exit:
  "\<not> upper_bound_violated st \<Longrightarrow> upper_bound_loop c k st = Some st"
  by (subst upper_bound_loop.simps) simp


lemma ls_upper_bound_loop_exit:
  "\<not> ls_upper_bound_violated (snd sl) \<Longrightarrow> ls_upper_bound_loop c sl = Some sl"
  by (subst ls_upper_bound_loop.simps) simp


lemma ls_loop_accept:
  "ls_pass c \<sigma>n sl = Some sl' \<Longrightarrow> \<not> ls_continue c (snd sl') \<Longrightarrow>
   ls_loop c \<sigma>n sl = Some sl'"
  by (subst ls_loop.simps) simp

lemma ls_loop_retry:
  "ls_pass c \<sigma>n sl = Some sl' \<Longrightarrow> ls_continue c (snd sl') \<Longrightarrow>
   ls_loop c \<sigma>n sl = ls_loop c \<sigma>n sl'"
  by (subst ls_loop.simps) simp

lemma main_loop_Return:
  "iteration c k st = Some (Return r) \<Longrightarrow> k \<le> max_iter (params c) \<Longrightarrow>
   main_loop c k st = Some (Returns r)"
  by simp

lemma main_loop_Continue:
  "iteration c k st = Some (Continue st') \<Longrightarrow> k \<le> max_iter (params c) \<Longrightarrow>
   main_loop c k st = main_loop c (Suc k) st'"
  by simp


section \<open>Invariants of the loops\<close>

lemma upper_bound_loop_rule_aux:
  "upper_bound_loop c k st = Some st' \<Longrightarrow>
   (\<forall>s. P s \<longrightarrow> upper_bound_violated s \<longrightarrow> P (upper_bound_step c k s)) \<longrightarrow> P st
     \<longrightarrow> P st' \<and> \<not> upper_bound_violated st'"
proof (induct rule: upper_bound_loop.raw_induct [rotated 1, consumes 1, case_names 1])
  case (1 loop c k st y)
  show ?case
  proof (intro impI)
    assume step: "\<forall>s. P s \<longrightarrow> upper_bound_violated s \<longrightarrow> P (upper_bound_step c k s)"
      and p: "P st"
    show "P y \<and> \<not> upper_bound_violated y"
    proof (cases "upper_bound_violated st")
      case True
      with 1(2) have "loop c k (upper_bound_step c k st) = Some y" by simp
      from 1(1) [OF this] step p True show ?thesis by blast
    next
      case False
      with 1(2) p show ?thesis by simp
    qed
  qed
qed

lemma upper_bound_loop_rule:
  assumes "upper_bound_loop c k st = Some st'"
    and "P st"
    and "\<And>s. P s \<Longrightarrow> upper_bound_violated s \<Longrightarrow> P (upper_bound_step c k s)"
  shows "P st' \<and> \<not> upper_bound_violated st'"
  using upper_bound_loop_rule_aux [OF assms(1), of P] assms(2,3) by blast

lemma ls_upper_bound_loop_rule_aux:
  "ls_upper_bound_loop c sl = Some sl' \<Longrightarrow>
   (\<forall>s. P s \<longrightarrow> ls_upper_bound_violated (snd s) \<longrightarrow> P (ls_upper_bound_step c s)) \<longrightarrow> P sl
     \<longrightarrow> P sl' \<and> \<not> ls_upper_bound_violated (snd sl')"
proof (induct rule: ls_upper_bound_loop.raw_induct [rotated 1, consumes 1, case_names 1])
  case (1 loop c sl y)
  show ?case
  proof (intro impI)
    assume step: "\<forall>s. P s \<longrightarrow> ls_upper_bound_violated (snd s) \<longrightarrow> P (ls_upper_bound_step c s)"
      and p: "P sl"
    show "P y \<and> \<not> ls_upper_bound_violated (snd y)"
    proof (cases "ls_upper_bound_violated (snd sl)")
      case True
      with 1(2) have "loop c (ls_upper_bound_step c sl) = Some y" by simp
      from 1(1) [OF this] step p True show ?thesis by blast
    next
      case False
      with 1(2) p show ?thesis by simp
    qed
  qed
qed

lemma ls_upper_bound_loop_rule:
  assumes "ls_upper_bound_loop c sl = Some sl'"
    and "P sl"
    and "\<And>s. P s \<Longrightarrow> ls_upper_bound_violated (snd s) \<Longrightarrow> P (ls_upper_bound_step c s)"
  shows "P sl' \<and> \<not> ls_upper_bound_violated (snd sl')"
  using ls_upper_bound_loop_rule_aux [OF assms(1), of P] assms(2,3) by blast

lemma ls_loop_rule_aux:
  "ls_loop c \<sigma>n sl = Some sl' \<Longrightarrow>
   (\<forall>s s'. P s \<longrightarrow> ls_pass c \<sigma>n s = Some s' \<longrightarrow> Q s' \<and> (ls_continue c (snd s') \<longrightarrow> P s'))
     \<longrightarrow> P sl \<longrightarrow> Q sl' \<and> \<not> ls_continue c (snd sl')"
proof (induct rule: ls_loop.raw_induct [rotated 1, consumes 1, case_names 1])
  case (1 loop c \<sigma>n sl y)
  show ?case
  proof (intro impI)
    assume step: "\<forall>s s'. P s \<longrightarrow> ls_pass c \<sigma>n s = Some s'
                     \<longrightarrow> Q s' \<and> (ls_continue c (snd s') \<longrightarrow> P s')"
      and p: "P sl"
    from 1(2) obtain s1 where pass: "ls_pass c \<sigma>n sl = Some s1"
      and rest: "(if ls_continue c (snd s1) then loop c \<sigma>n s1 else Some s1) = Some y"
      by (auto simp: Option.bind_eq_Some_conv)
    from step p pass have q: "Q s1" and pc: "ls_continue c (snd s1) \<longrightarrow> P s1"
      by blast+
    show "Q y \<and> \<not> ls_continue c (snd y)"
    proof (cases "ls_continue c (snd s1)")
      case True
      with rest have "loop c \<sigma>n s1 = Some y" by simp
      from 1(1) [OF this] step pc True show ?thesis by blast
    next
      case False
      with rest q show ?thesis by simp
    qed
  qed
qed

lemma ls_loop_rule:
  assumes "ls_loop c \<sigma>n sl = Some sl'"
    and "P sl"
    and "\<And>s s'. P s \<Longrightarrow> ls_pass c \<sigma>n s = Some s' \<Longrightarrow> Q s' \<and> (ls_continue c (snd s') \<longrightarrow> P s')"
  shows "Q sl' \<and> \<not> ls_continue c (snd sl')"
  using ls_loop_rule_aux [OF assms(1), of P Q] assms(2,3) by blast


lemma frame_A_upper_bound_step: "frame_A (upper_bound_step c k st) = frame_A st"
  by (simp add: upper_bound_step_def frame_A_def Let_def case_prod_beta)

lemma consistent_upper_bound_step:
  "consistent c st \<Longrightarrow> consistent c (upper_bound_step c k st)"
  by (simp add: upper_bound_step_def consistent_def Let_def case_prod_beta)

lemma step_A_invariant:
  assumes "step_A c k st = Some st1" and "P st"
    and "\<And>s. P s \<Longrightarrow> upper_bound_violated s \<Longrightarrow> P (upper_bound_step c k s)"
  shows "P st1"
proof (cases "k = 0 \<or> update_lipschitz_in_linesearch (params c) = False")
  case True
  with assms(1) have "upper_bound_loop c k st = Some st1"
    by (simp add: step_A_def)
  from upper_bound_loop_rule [OF this, of P] assms(2,3) show ?thesis by blast
next
  case False
  with assms(1,2) show ?thesis by (simp add: step_A_def)
qed

lemma step_A_frame: "step_A c k st = Some st1 \<Longrightarrow> frame_A st1 = frame_A st"
  by (rule step_A_invariant [where P = "\<lambda>s. frame_A s = frame_A st"])
     (simp_all add: frame_A_upper_bound_step)

lemma step_A_consistent: "step_A c k st = Some st1 \<Longrightarrow> consistent c st \<Longrightarrow> consistent c st1"
  by (rule step_A_invariant [where P = "consistent c"])
     (auto intro: consistent_upper_bound_step)

lemma consistent_initial_state:
  "(\<psi>0, g0) = calc_psi_grad_psi (problem c) x (y_in c) (Sigma_in c) \<Longrightarrow>
   consistent c (initial_state c x x' g1 \<psi>0 g0 L)"
  by (simp add: initial_state_def consistent_def Let_def case_prod_beta)

lemma state_at_0_consistent: "state_at c x 0 = Some st \<Longrightarrow> consistent c st"
  by (auto simp: lipschitz_estimate_def Let_def case_prod_beta
      split: if_splits intro!: consistent_initial_state)

lemma frame_E_ls_candidate: "frame_E (fst (ls_candidate c st lv)) = frame_E st"
  by (simp add: ls_candidate_def frame_E_def Let_def case_prod_beta)

lemma ls_consistent_ls_candidate: "ls_consistent c (ls_candidate c st lv)"
  by (simp add: ls_candidate_def ls_consistent_def Let_def case_prod_beta)

lemma frame_E_ls_upper_bound_step: "frame_E (fst (ls_upper_bound_step c sl)) = frame_E (fst sl)"
  by (simp add: ls_upper_bound_step_def frame_E_def Let_def case_prod_beta)

lemma ls_consistent_ls_upper_bound_step:
  "ls_consistent c sl \<Longrightarrow> ls_consistent c (ls_upper_bound_step c sl)"
  by (simp add: ls_upper_bound_step_def ls_consistent_def Let_def case_prod_beta)

lemma ls_consistent_ls_finish:
  "ls_consistent c (st, ls_finish \<phi> \<sigma>n lv) = ls_consistent c (st, lv)"
  by (simp add: ls_finish_def ls_consistent_def Let_def)

text \<open>What a pass of the line search establishes, whatever it starts from.\<close>

lemma ls_pass_invariant:
  assumes "ls_pass c \<sigma>n sl = Some sl'"
    and "\<And>s. P (ls_candidate c (fst sl) (snd sl))"
    and "\<And>s. P s \<Longrightarrow> ls_upper_bound_violated (snd s) \<Longrightarrow> P (ls_upper_bound_step c s)"
  shows "\<exists>s. P s \<and> sl' = (fst s, ls_finish (phi_k (fst s)) \<sigma>n (snd s)) \<and>
             (update_lipschitz_in_linesearch (params c) \<longrightarrow> \<not> ls_upper_bound_violated (snd s))"
proof (cases "update_lipschitz_in_linesearch (params c)")
  case True
  with assms(1) obtain s where
    loop: "ls_upper_bound_loop c (ls_candidate c (fst sl) (snd sl)) = Some s"
    and eq: "sl' = (fst s, ls_finish (phi_k (fst s)) \<sigma>n (snd s))"
    by (auto simp: ls_pass_def case_prod_beta)
  from ls_upper_bound_loop_rule [OF loop, of P] assms(2,3) eq show ?thesis by blast
next
  case False
  with assms(1,2) show ?thesis
    by (intro exI [of _ "ls_candidate c (fst sl) (snd sl)"])
       (auto simp: ls_pass_def case_prod_beta)
qed

lemma ls_pass_consistent:
  assumes "ls_pass c \<sigma>n sl = Some sl'"
  shows "ls_consistent c sl' \<and> frame_E (fst sl') = frame_E (fst sl)"
proof -
  from ls_pass_invariant [OF assms,
      of "\<lambda>s. ls_consistent c s \<and> frame_E (fst s) = frame_E (fst sl)"]
  obtain s where "ls_consistent c s" "frame_E (fst s) = frame_E (fst sl)"
    "sl' = (fst s, ls_finish (phi_k (fst s)) \<sigma>n (snd s))"
    by (auto simp: ls_consistent_ls_candidate frame_E_ls_candidate
        ls_consistent_ls_upper_bound_step frame_E_ls_upper_bound_step)
  then show ?thesis
    by (cases s) (simp add: ls_consistent_ls_finish)
qed

lemma ls_loop_consistent:
  assumes "ls_loop c \<sigma>n sl = Some sl'"
  shows "ls_consistent c sl' \<and> frame_E (fst sl') = frame_E (fst sl)"
  using ls_loop_rule [OF assms,
      of "\<lambda>s. frame_E (fst s) = frame_E (fst sl)"
         "\<lambda>s. ls_consistent c s \<and> frame_E (fst s) = frame_E (fst sl)"]
    ls_pass_consistent
  by (metis)


section \<open>The run as a sequence of states\<close>

lemma iteration_Continue_not_last:
  assumes "iteration c k st = Some (Continue st')"
  shows "k \<noteq> max_iter (params c)"
proof
  assume "k = max_iter (params c)"
  then have "\<And>s. \<exists>r. stop_check c k s = Return r"
    by (simp add: stop_check_def)
  then show False
    using assms
    by (auto simp: iteration_def Option.bind_eq_Some_conv split: Step.splits)
qed

lemma state_at_le: "state_at c x k = Some st \<Longrightarrow> k \<le> max_iter (params c)"
proof (induction k arbitrary: st)
  case 0
  then show ?case by simp
next
  case (Suc k)
  then obtain st0 where a: "state_at c x k = Some st0" and b: "iteration c k st0 = Some (Continue st)"
    by (auto split: option.splits Step.splits)
  from Suc.IH [OF a] iteration_Continue_not_last [OF b] show ?case by simp
qed

lemma panoc_reaches: "state_at c x k = Some st \<Longrightarrow> panoc c x = main_loop c k st"
proof (induction k arbitrary: st)
  case 0
  then show ?case
    by (auto simp: panoc_def Let_def split: prod.splits if_splits)
next
  case (Suc k)
  then obtain st0 where a: "state_at c x k = Some st0" and b: "iteration c k st0 = Some (Continue st)"
    by (auto split: option.splits Step.splits)
  have "k \<le> max_iter (params c)" using a by (rule state_at_le)
  with Suc.IH [OF a] b show ?case
    by (simp only: main_loop_Continue)
qed

lemma main_loop_Returns:
  "main_loop c k st = Some (Returns r) \<Longrightarrow> state_at c x k = Some st \<Longrightarrow>
   \<exists>j st'. state_at c x j = Some st' \<and> iteration c j st' = Some (Return r)"
proof (induction c k st rule: main_loop.induct)
  case (1 c k st)
  show ?case
  proof (cases "iteration c k st")
    case None
    with "1.prems" show ?thesis by (simp split: if_splits)
  next
    case (Some stp)
    show ?thesis
    proof (cases stp)
      case (Return r')
      with Some "1.prems" show ?thesis by (auto split: if_splits)
    next
      case (Continue st')
      with Some "1.prems" have le: "k \<le> max_iter (params c)"
        and ml: "main_loop c (k + 1) st' = Some (Returns r)"
        by (auto split: if_splits)
      have "state_at c x (k + 1) = Some st'"
        using "1.prems"(2) Some Continue by simp
      from "1.IH" [OF le Some Continue ml this] show ?thesis .
    qed
  qed
qed

text \<open>A call that returns does so either before the main loop, with the frame of
  \<open>lipschitz_not_finite_frame\<close>, or from the stop check of an iteration it reaches.\<close>

lemma panoc_Returns:
  assumes "panoc c x = Some (Returns r)"
  shows "(state_at c x 0 = None \<and> status (res_stats r) = NotFinite \<and> res_polls r = 0)
       \<or> (\<exists>k st. state_at c x k = Some st \<and> iteration c k st = Some (Return r))"
proof (cases "state_at c x 0")
  case None
  with assms show ?thesis
    by (auto simp: panoc_def keep_outputs_def Let_def split: prod.splits if_splits)
next
  case (Some st)
  with assms have "main_loop c 0 st = Some (Returns r)"
    by (simp add: panoc_reaches)
  from main_loop_Returns [OF this Some] show ?thesis by blast
qed

section \<open>What an iteration preserves\<close>

lemma stop_check_Continue:
  assumes "stop_check c k s = Continue s'"
  shows "s' = s\<lparr> polls := polls s + 1 \<rparr>" and "\<not> eps_k s \<le> eps_tol c"
    and "k \<noteq> max_iter (params c)" and "\<not> out_of_time c k" and "isfinite (eps_k s)"
    and "\<not> stop_signal_at c k"
  using assms by (auto simp: stop_check_def split: if_splits)

lemma iteration_Continue:
  assumes "iteration c k st = Some (Continue st')"
  obtains st1 st3 \<tau>0 st4 lv where
    "step_A c k st = Some st1"
    "stop_check c k (step_B c k st1) = Continue ((step_B c k st1)\<lparr> polls := polls st1 + 1 \<rparr>)"
    "quasi_newton c k ((step_B c k st1)\<lparr> polls := polls st1 + 1 \<rparr>) = (st3, \<tau>0)"
    "line_search c st3 \<tau>0 = Some (st4, lv)"
    "st' = advance lv (update_lbfgs c lv (count_linesearch_failure c k lv st4))"
proof -
  from assms obtain st1 where a: "step_A c k st = Some st1"
    and r: "(case stop_check c k (step_B c k st1) of
               Return r \<Rightarrow> Some (Return r)
             | Continue st2 \<Rightarrow> map_option Continue (steps_D_to_G c k st2)) = Some (Continue st')"
    by (auto simp: iteration_def Option.bind_eq_Some_conv)
  from r obtain st2 where sc: "stop_check c k (step_B c k st1) = Continue st2"
    and d: "steps_D_to_G c k st2 = Some st'"
    by (auto split: Step.splits)
  from stop_check_Continue(1) [OF sc]
  have st2: "st2 = (step_B c k st1)\<lparr> polls := polls st1 + 1 \<rparr>"
    by (simp add: step_B_def)
  obtain st3 \<tau>0 where q: "quasi_newton c k st2 = (st3, \<tau>0)"
    by (cases "quasi_newton c k st2")
  with d obtain st4 lv where ls: "line_search c st3 \<tau>0 = Some (st4, lv)"
    and e: "st' = advance lv (update_lbfgs c lv (count_linesearch_failure c k lv st4))"
    by (auto simp: steps_D_to_G_def)
  from a sc q ls e st2 that show thesis by blast
qed

lemma consistent_advance:
  "ls_consistent c (st, lv) \<Longrightarrow>
   consistent c (advance lv (update_lbfgs c lv (count_linesearch_failure c k lv st)))"
  by (simp add: ls_consistent_def consistent_def advance_def update_lbfgs_def
      count_linesearch_failure_def case_prod_beta)

lemma polls_advance:
  "polls (advance lv (update_lbfgs c lv (count_linesearch_failure c k lv st))) = polls st"
  by (simp add: advance_def update_lbfgs_def count_linesearch_failure_def case_prod_beta)

lemma polls_quasi_newton: "polls (fst (quasi_newton c k st)) = polls st"
  by (simp add: quasi_newton_def Let_def case_prod_beta)

lemma frame_E_polls: "frame_E s = frame_E s' \<Longrightarrow> polls s = polls s'"
  by (simp add: frame_E_def)

lemma frame_A_polls: "frame_A s = frame_A s' \<Longrightarrow> polls s = polls s'"
  by (simp add: frame_A_def)

lemma line_search_consistent:
  assumes "line_search c st \<tau>0 = Some (st', lv)"
  shows "ls_consistent c (st', lv)" and "frame_E st' = frame_E st"
  using ls_loop_consistent [OF assms [unfolded line_search_def]] by simp_all

lemma iteration_Continue_consistent:
  assumes "iteration c k st = Some (Continue st')"
  shows "consistent c st'" and "polls st' = polls st + 1"
proof -
  from assms obtain st1 st3 \<tau>0 st4 lv where
    a: "step_A c k st = Some st1"
    and q: "quasi_newton c k ((step_B c k st1)\<lparr> polls := polls st1 + 1 \<rparr>) = (st3, \<tau>0)"
    and ls: "line_search c st3 \<tau>0 = Some (st4, lv)"
    and e: "st' = advance lv (update_lbfgs c lv (count_linesearch_failure c k lv st4))"
    by (rule iteration_Continue)
  from line_search_consistent [OF ls] e show "consistent c st'"
    by (simp add: consistent_advance)
  have "polls st4 = polls st3"
    using line_search_consistent(2) [OF ls] by (rule frame_E_polls)
  also have "polls st3 = polls st1 + 1"
    using polls_quasi_newton [of c k "(step_B c k st1)\<lparr> polls := polls st1 + 1 \<rparr>"] q by simp
  also have "polls st1 = polls st"
    using step_A_frame [OF a] by (rule frame_A_polls)
  finally show "polls st' = polls st + 1"
    using e by (simp add: polls_advance)
qed

lemma state_at_consistent: "state_at c x k = Some st \<Longrightarrow> consistent c st \<and> polls st = k"
proof (induction k arbitrary: st)
  case 0
  then show ?case
    using state_at_0_consistent [OF 0]
    by (auto simp: Let_def case_prod_beta initial_state_def split: if_splits)
next
  case (Suc k)
  then obtain st0 where a: "state_at c x k = Some st0" and b: "iteration c k st0 = Some (Continue st)"
    by (auto split: option.splits Step.splits)
  from Suc.IH [OF a] iteration_Continue_consistent [OF b] show ?case by simp
qed


section \<open>What a returning iteration writes\<close>

lemma map2_commute: "map2 op xs ys = map2 (\<lambda>y x. op x y) ys xs"
  by (induction xs arbitrary: ys) (auto split: list.splits simp: zip_Cons1)

lemma grad_psi_from_yhat:
  "calc_grad_psi_from_yhat p x (snd (calc_psi_yhat p x y \<Sigma>)) = calc_grad_psi p x y \<Sigma>"
  by (simp add: calc_grad_psi_from_yhat_def calc_psi_yhat_def calc_grad_psi_def Let_def
      map2_commute [of "(*)"])

lemma grad_psi_fused: "snd (calc_psi_grad_psi p x y \<Sigma>) = calc_grad_psi p x y \<Sigma>"
  by (simp add: calc_psi_grad_psi_def case_prod_beta grad_psi_from_yhat)

lemma iteration_Return:
  assumes "iteration c k st = Some (Return r)"
  obtains st1 where "step_A c k st = Some st1" "stop_check c k (step_B c k st1) = Return r"
proof -
  from assms obtain st1 where a: "step_A c k st = Some st1"
    and r: "(case stop_check c k (step_B c k st1) of
               Return r \<Rightarrow> Some (Return r)
             | Continue st2 \<Rightarrow> map_option Continue (steps_D_to_G c k st2)) = Some (Return r)"
    by (auto simp: iteration_def Option.bind_eq_Some_conv)
  from r have "stop_check c k (step_B c k st1) = Return r"
    by (cases "stop_check c k (step_B c k st1)") auto
  with a that show thesis by blast
qed


lemma step_B_sel:
  "xhat_k (step_B c k s) = xhat_k s" "yhat_xhat_k (step_B c k s) = yhat_xhat_k s"
  "pk (step_B c k s) = pk s" "gamma_k (step_B c k s) = gamma_k s" "grad_psi_k (step_B c k s) = grad_psi_k s"
  "stats (step_B c k s) = stats s" "x_caller (step_B c k s) = x_caller s"
  "polls (step_B c k s) = polls s"
  "grad_hat_psi_k (step_B c k s) = calc_grad_psi_from_yhat (problem c) (xhat_k s) (yhat_xhat_k s)"
  by (simp_all add: step_B_def Let_def)

text \<open>The residual tested in an iteration, in terms of \<open>\<nabla>\<psi>\<close>.\<close>

lemma residual_step_B:
  assumes "consistent c s"
  shows "eps_k (step_B c k s) =
           norm_inf (vadd (smul (Fin 1 div gamma_k s) (pk s))
                          (vsub (calc_grad_psi (problem c) (xhat_k s) (y_in c) (Sigma_in c))
                                (calc_grad_psi (problem c) (xk s) (y_in c) (Sigma_in c))))"
proof -
  from assms have "yhat_xhat_k s = snd (calc_psi_yhat (problem c) (xhat_k s) (y_in c) (Sigma_in c))"
    and "grad_psi_k s = snd (calc_psi_grad_psi (problem c) (xk s) (y_in c) (Sigma_in c))"
    by (auto simp: consistent_def dest: arg_cong [where f = snd])
  then show ?thesis
    by (simp add: eps_k_def step_B_sel calc_error_stop_crit_def grad_psi_from_yhat grad_psi_fused)
qed

lemma stop_check_Return:
  assumes "stop_check c k s = Return r"
  shows "res_stats r = fill_stats c k s (status (res_stats r))"
    and "status (res_stats r) \<noteq> NotFinite \<Longrightarrow>
           r = write_outputs c s (res_stats r) (res_polls r)"
    and "status (res_stats r) = NotFinite \<Longrightarrow>
           r = keep_outputs c (x_caller s) (res_stats r) (res_polls r)"
    and "res_polls r = polls s + (if status (res_stats r) = Interrupted then 1 else 0)"
    and "status (res_stats r) = Converged \<longleftrightarrow> eps_k s \<le> eps_tol c"
  using assms
  by (auto simp: stop_check_def fill_stats_def write_outputs_def keep_outputs_def
      case_prod_beta split: if_splits)

lemma write_outputs_sel:
  "res_x (write_outputs c s st n) = xhat_k s" "res_y (write_outputs c s st n) = yhat_xhat_k s"
  "(res_z (write_outputs c s st n), res_err_z (write_outputs c s st n))
     = calc_zhat (problem c) (xhat_k s) (y_in c) (Sigma_in c)"
  "res_stats (write_outputs c s st n) = st" "res_polls (write_outputs c s st n) = n"
  by (simp_all add: write_outputs_def case_prod_beta)

lemma keep_outputs_sel:
  "res_x (keep_outputs c x st n) = x" "res_y (keep_outputs c x st n) = y_in c"
  "res_z (keep_outputs c x st n) = z_in c" "res_err_z (keep_outputs c x st n) = err_z_in c"
  "res_stats (keep_outputs c x st n) = st" "res_polls (keep_outputs c x st n) = n"
  by (simp_all add: keep_outputs_def)

lemma fill_stats_sel:
  "iterations (fill_stats c k s stat) = k" "stats_eps (fill_stats c k s stat) = eps_k s"
  "elapsed_time (fill_stats c k s stat) = duration_cast_microseconds (time_elapsed_at c k)"
  "status (fill_stats c k s stat) = stat"
  "linesearch_failures (fill_stats c k s stat) = linesearch_failures (stats s)"
  "lbfgs_failures (fill_stats c k s stat) = lbfgs_failures (stats s)"
  "lbfgs_rejected (fill_stats c k s stat) = lbfgs_rejected (stats s)"
  by (simp_all add: fill_stats_def)







section \<open>Evaluating the examples\<close>

declare state_at.simps [simp del]

lemma quad_estimate:
  assumes "c = example_call (piece_problem inside out gout MInf PInf) (example_params mi mt) tol clock stop"
    and "inside (Fin 1)" and "inside (Fin (1025/1024))"
  shows "lipschitz_estimate c [Fin 1] =
     ([Fin (1/1024)], [Fin (1025/1024)], [Fin (1025/4096)], Fin (1/8), [Fin (1/4)], Fin (1/4))"
  using assms(2,3) unfolding assms(1)
  by (simp add: lipschitz_estimate_def example_call_sel example_params_def piece_problem_def
      calc_defs vec_defs norm_t_single Let_def)

lemma quad_initial:
  assumes "c = example_call (piece_problem inside out gout MInf PInf) (example_params mi mt) tol clock stop"
    and "inside (Fin 1)"
  shows "initial_state c [Fin 1] [Fin (1025/1024)] [Fin (1025/4096)] (Fin (1/8)) [Fin (1/4)]
           (Fin (1/4))
         = state0\<lparr> psi_hat_xk := (if inside (Fin (1/2)) then Fin (1/32) else out) \<rparr>"
  using assms(2) unfolding assms(1)
  by (simp add: state0_def initial_state_def example_call_sel example_params_def spec_ops_def
      piece_problem_def calc_defs vec_defs Let_def)

lemma quad_state_at_0:
  assumes "c = example_call (piece_problem inside out gout MInf PInf) (example_params mi mt) tol clock stop"
    and "inside (Fin 1)" and "inside (Fin (1025/1024))"
  shows "state_at c [Fin 1] 0 =
           Some (state0\<lparr> psi_hat_xk := (if inside (Fin (1/2)) then Fin (1/32) else out) \<rparr>)"
  by (simp add: state_at.simps quad_estimate [OF assms] quad_initial [OF assms(1,2)] epsilon_def)

lemma state0_update: "state0\<lparr> psi_hat_xk := Fin (1/32) \<rparr> = state0"
  by (simp add: state0_def)

lemma quad_state_at_0':
  assumes "c = example_call (quad_problem MInf PInf) (example_params mi mt) tol clock stop"
  shows "state_at c [Fin 1] 0 = Some state0"
  using quad_state_at_0 [of c "\<lambda>t. True" NaN NaN mi mt tol clock stop] assms
  by (simp add: quad_problem_def state0_update)

lemma quad_step_A: "step_A c 0 state0 = Some state0"
  by (simp add: step_A_def upper_bound_loop_exit upper_bound_violated_def margin_def state0_def)

lemma quad_step_B:
  assumes "c = example_call (piece_problem inside out gout MInf PInf) (example_params mi mt) tol clock stop"
    and "inside (Fin (1/2))"
  shows "step_B c 0 state0 = state0\<lparr> grad_hat_psi_k := [Fin (1/8)] \<rparr>"
  using assms(2) unfolding assms(1)
  by (simp add: step_B_def state0_def example_call_sel example_params_def piece_problem_def
      calc_defs vec_defs Let_def)




lemma quad_residual: "eps_k (state0\<lparr> grad_hat_psi_k := [Fin (1/8)] \<rparr>) = Fin (3/8)"
  by (simp add: eps_k_def state0_def calc_defs vec_defs)



lemma quad_call_sel:
  "eps_tol quad_call = Fin (1/4)" "max_iter (params quad_call) = 10"
  "out_of_time quad_call k = (1000 < 5000 * int k)" "stop_signal_at quad_call k = False"
  "time_elapsed_at quad_call k = 5000 * int k"
  by (simp_all add: quad_call_def example_call_sel out_of_time_def example_params_def)


lemma quad_stop_check_0:
  assumes "\<not> Fin (3/8) \<le> eps_tol c" and "max_iter (params c) \<noteq> 0" and "\<not> out_of_time c 0"
    and "\<not> stop_signal_at c 0"
  shows "stop_check c 0 (state0\<lparr> grad_hat_psi_k := [Fin (1/8)] \<rparr>) =
           Continue (state0\<lparr> grad_hat_psi_k := [Fin (1/8)], polls := 1 \<rparr>)"
  unfolding stop_check_def using assms
  by (simp add: quad_residual) (simp add: state0_def)

lemma quad_ls_candidate_0:
  assumes "c = example_call (piece_problem inside out gout MInf PInf) (example_params mi mt) tol clock stop"
    and "inside (Fin (1/2))" and "inside (Fin (1/4))"
  shows "ls_candidate c (state0\<lparr> grad_hat_psi_k := [Fin (1/8)], polls := 1 \<rparr>)
           \<lparr> phi_k1 = NaN, psi_k1 = NaN, psi_hat_xk1 = NaN, grad_psi_k1Tpk1 = NaN, norm_sq_pk1 = NaN,
             tau = Fin 0, Lk1 = NaN, sigma_k1 = NaN, gamma_k1 = NaN, ls_cond = NaN \<rparr>
         = (state0\<lparr> grad_hat_psi_k := [Fin (1/8)], polls := 1, xk1 := [Fin (1/2)],
                    xhat_k := [NaN], grad_psi_k1 := [Fin (1/8)], xhat_k1 := [Fin (1/4)],
                    pk1 := [Fin (- (1/4))], yhat_xhat_k1 := [Fin 0] \<rparr>,
            \<lparr> phi_k1 = NaN, psi_k1 = Fin (1/32), psi_hat_xk1 = Fin (1/128),
              grad_psi_k1Tpk1 = Fin (- (1/32)), norm_sq_pk1 = Fin (1/16), tau = Fin 0,
              Lk1 = Fin (1/4), sigma_k1 = Fin (1/2), gamma_k1 = Fin 2, ls_cond = NaN \<rparr>)"
  using assms(2,3) unfolding assms(1)
  by (simp add: ls_candidate_def Let_def example_call_sel example_params_def state0_def)
     (simp add: calc_defs vec_defs piece_problem_def)

lemma quad_line_search_0:
  assumes "c = example_call (piece_problem inside out gout MInf PInf) (example_params mi mt) tol clock stop"
    and "inside (Fin (1/2))" and "inside (Fin (1/4))"
  shows "line_search c (state0\<lparr> grad_hat_psi_k := [Fin (1/8)], polls := 1 \<rparr>) (Fin 0)
         = Some (state0\<lparr> grad_hat_psi_k := [Fin (1/8)], polls := 1, xk1 := [Fin (1/2)],
                    xhat_k := [NaN], grad_psi_k1 := [Fin (1/8)], xhat_k1 := [Fin (1/4)],
                    pk1 := [Fin (- (1/4))], yhat_xhat_k1 := [Fin 0] \<rparr>,
            \<lparr> phi_k1 = Fin (1/64), psi_k1 = Fin (1/32), psi_hat_xk1 = Fin (1/128),
              grad_psi_k1Tpk1 = Fin (- (1/32)), norm_sq_pk1 = Fin (1/16), tau = Fin 0,
              Lk1 = Fin (1/4), sigma_k1 = Fin (1/2), gamma_k1 = Fin 2, ls_cond = Fin (- (1/64)) \<rparr>)"
proof -
  have un: "uninit_t c = NaN" and tm: "tau_min (params c) = Fin (1/256)"
    and up: "update_lipschitz_in_linesearch (params c) = True"
    by (simp_all add: assms(1) example_call_sel example_params_def)
  have \<sigma>n: "sigma_norm_gamma_inv_pk (state0\<lparr> grad_hat_psi_k := [Fin (1/8)], polls := 1 \<rparr>) = Fin (1/32)"
    by (simp add: sigma_norm_gamma_inv_pk_def state0_def)
  have pass: "ls_pass c (Fin (1/32)) (state0\<lparr> grad_hat_psi_k := [Fin (1/8)], polls := 1 \<rparr>,
           \<lparr> phi_k1 = NaN, psi_k1 = NaN, psi_hat_xk1 = NaN, grad_psi_k1Tpk1 = NaN, norm_sq_pk1 = NaN,
             tau = Fin 0, Lk1 = NaN, sigma_k1 = NaN, gamma_k1 = NaN, ls_cond = NaN \<rparr>)
        = Some (state0\<lparr> grad_hat_psi_k := [Fin (1/8)], polls := 1, xk1 := [Fin (1/2)],
                    xhat_k := [NaN], grad_psi_k1 := [Fin (1/8)], xhat_k1 := [Fin (1/4)],
                    pk1 := [Fin (- (1/4))], yhat_xhat_k1 := [Fin 0] \<rparr>,
            \<lparr> phi_k1 = Fin (1/64), psi_k1 = Fin (1/32), psi_hat_xk1 = Fin (1/128),
              grad_psi_k1Tpk1 = Fin (- (1/32)), norm_sq_pk1 = Fin (1/16), tau = Fin 0,
              Lk1 = Fin (1/4), sigma_k1 = Fin (1/2), gamma_k1 = Fin 2, ls_cond = Fin (- (1/64)) \<rparr>)"
    unfolding ls_pass_def
    apply (simp only: fst_conv snd_conv quad_ls_candidate_0 [OF assms] up if_True)
    apply (subst ls_upper_bound_loop_exit)
     apply (simp add: ls_upper_bound_violated_def margin_def)
    apply (simp add: ls_finish_def state0_def minus_real_t_def)
    done
  show ?thesis
    unfolding line_search_def \<sigma>n un
    by (rule ls_loop_accept [OF pass]) (simp add: ls_continue_def tm)
qed


lemma spec_update_0:
  "spec_lbfgs_update (10, []) [Fin (- (1/2))] [Fin (- (1/4))]
     = (True, (10, [([Fin (- (1/2))], [Fin (- (1/4))])]))"
  by (simp add: spec_lbfgs_update_def norm_t_single epsilon_def dot_def vsum_def)

lemma quad_iteration_0:
  assumes "c = example_call (piece_problem inside out gout MInf PInf) (example_params mi mt) tol clock stop"
    and "inside (Fin (1/2))" and "inside (Fin (1/4))"
    and "\<not> Fin (3/8) \<le> tol" and "mi \<noteq> 0" and "\<not> mt * 1000 < clock 0" and "\<not> stop 0"
  shows "iteration c 0 state0 = Some (Continue state1)"
proof -
  have sel: "\<not> Fin (3/8) \<le> eps_tol c" "max_iter (params c) \<noteq> 0" "\<not> out_of_time c 0"
    "\<not> stop_signal_at c 0" "specialized_lbfgs (params c) = False"
    "tau_min (params c) = Fin (1/256)" "ops c = spec_ops"
    using assms(4-7)
    by (simp_all add: assms(1) example_call_sel example_params_def out_of_time_def)
  have qn: "\<And>st. quasi_newton c 0 st = (st, Fin 0)"
    by (simp add: quasi_newton_def)
  have "steps_D_to_G c 0 (state0\<lparr> grad_hat_psi_k := [Fin (1/8)], polls := 1 \<rparr>) = Some state1"
    unfolding steps_D_to_G_def
    apply (simp only: qn Let_def prod.case quad_line_search_0 [OF assms(1-3)] option.map)
    apply (simp add: count_linesearch_failure_def update_lbfgs_def sel)
    apply (simp add: state0_def spec_ops_def vsub_def minus_real_t_def spec_update_0)
    apply (simp add: advance_def state1_def example_stats_def)
    done
  then show ?thesis
    by (simp add: iteration_def quad_step_A quad_step_B [OF assms(1,2)]
        quad_stop_check_0 [OF sel(1-4)])
qed

lemma quad_call_state_at_1: "state_at quad_call [Fin 1] (Suc 0) = Some state1"
proof -
  have "iteration quad_call 0 state0 = Some (Continue state1)"
    by (rule quad_iteration_0 [of _ "\<lambda>t. True" NaN NaN 10 1 "Fin (1/4)" "\<lambda>k. 5000 * int k"
          "\<lambda>k. False"])
       (simp_all add: quad_call_def quad_problem_def)
  then show ?thesis
    by (simp only: state_at.simps(2) quad_state_at_0' [OF quad_call_def] option.case Step.case)
qed

lemma quad_call_step_1:
  "step_A quad_call (Suc 0) state1 = Some state1"
  "step_B quad_call (Suc 0) state1 = state1\<lparr> grad_hat_psi_k := [Fin (1/16)] \<rparr>"
  "eps_k (state1\<lparr> grad_hat_psi_k := [Fin (1/16)] \<rparr>) = Fin (3/16)"
    apply (simp add: step_A_def quad_call_def example_call_sel example_params_def)
   apply (simp add: step_B_def state1_def quad_call_def quad_problem_def piece_problem_def
      example_call_sel example_params_def calc_defs vec_defs)
  apply (simp add: eps_k_def state1_def calc_defs vec_defs)
  done

lemma quad_call_iteration_1: "iteration quad_call (Suc 0) state1 = Some (Return quad_result)"
proof -
  have "stop_check quad_call (Suc 0) (state1\<lparr> grad_hat_psi_k := [Fin (1/16)] \<rparr>) =
      Return (write_outputs quad_call (state1\<lparr> grad_hat_psi_k := [Fin (1/16)] \<rparr>)
                (fill_stats quad_call (Suc 0) (state1\<lparr> grad_hat_psi_k := [Fin (1/16)] \<rparr>) Converged) (Suc 0))"
    unfolding stop_check_def
    by (simp only: quad_call_step_1 quad_call_sel) (simp add: state1_def)
  moreover have "write_outputs quad_call (state1\<lparr> grad_hat_psi_k := [Fin (1/16)] \<rparr>)
                (fill_stats quad_call (Suc 0) (state1\<lparr> grad_hat_psi_k := [Fin (1/16)] \<rparr>) Converged) (Suc 0)
        = quad_result"
    apply (simp add: write_outputs_def fill_stats_def quad_call_step_1 quad_call_sel
        duration_cast_microseconds_def)
    apply (simp add: quad_call_def quad_problem_def piece_problem_def example_call_sel
        state1_def calc_defs vec_defs quad_result_def example_stats_def)
    done
  ultimately show ?thesis
    by (simp add: iteration_def quad_call_step_1)
qed

lemma quad_call_run: "panoc quad_call [Fin 1] = Some (Returns quad_result)"
proof -
  have "panoc quad_call [Fin 1] = main_loop quad_call (Suc 0) state1"
    by (rule panoc_reaches) (rule quad_call_state_at_1)
  also have "\<dots> = Some (Returns quad_result)"
    using main_loop_Return [OF quad_call_iteration_1] by (simp add: quad_call_sel)
  finally show ?thesis .
qed


lemma partial_state_at_0:
  "state_at partial_call [Fin 1] 0 = Some (state0\<lparr> psi_hat_xk := NaN \<rparr>)"
  using quad_state_at_0 [of partial_call "\<lambda>t. Fin (3/4) \<le> t" NaN NaN 10 1 "Fin (1/1024)"
      "\<lambda>k. 5000 * int k" "\<lambda>k. False"]
  by (simp add: partial_call_def partial_problem_def)

lemma partial_step_A:
  "step_A partial_call 0 (state0\<lparr> psi_hat_xk := NaN \<rparr>) = Some (state0\<lparr> psi_hat_xk := NaN \<rparr>)"
  by (simp add: step_A_def upper_bound_loop_exit upper_bound_violated_def margin_def state0_def)

lemma partial_step_B:
  "step_B partial_call 0 (state0\<lparr> psi_hat_xk := NaN \<rparr>)
     = state0\<lparr> psi_hat_xk := NaN, grad_hat_psi_k := [NaN] \<rparr>"
  by (simp add: step_B_def state0_def partial_call_def partial_problem_def piece_problem_def
      example_call_sel example_params_def calc_defs vec_defs)

lemma partial_residual: "eps_k (state0\<lparr> psi_hat_xk := NaN, grad_hat_psi_k := [NaN] \<rparr>) = NaN"
  by (simp add: eps_k_def state0_def calc_defs vec_defs)

lemma partial_call_sel:
  "eps_tol partial_call = Fin (1/1024)" "max_iter (params partial_call) = 10"
  "out_of_time partial_call k = (1000 < 5000 * int k)" "stop_signal_at partial_call k = False"
  "time_elapsed_at partial_call k = 5000 * int k"
  "y_in partial_call = [Fin 1]" "Sigma_in partial_call = [Fin 1]" "z_in partial_call = [Fin 7]"
  "err_z_in partial_call = [Fin 7]"
  by (simp_all add: partial_call_def example_call_sel out_of_time_def example_params_def)

lemma partial_run:
  "panoc partial_call [Fin 1] =
     Some (Returns \<lparr> res_x = [Fin (1025/1024)], res_z = [Fin 7], res_y = [Fin 1],
                     res_err_z = [Fin 7],
                     res_stats = \<lparr> iterations = 0, stats_eps = NaN, elapsed_time = 0,
                                   status = NotFinite, linesearch_failures = 0,
                                   lbfgs_failures = 0, lbfgs_rejected = 0 \<rparr>,
                     res_polls = 0 \<rparr>)"
proof -
  have "stop_check partial_call 0 (state0\<lparr> psi_hat_xk := NaN, grad_hat_psi_k := [NaN] \<rparr>) =
      Return (keep_outputs partial_call
                (x_caller (state0\<lparr> psi_hat_xk := NaN, grad_hat_psi_k := [NaN] \<rparr>))
                (fill_stats partial_call 0 (state0\<lparr> psi_hat_xk := NaN, grad_hat_psi_k := [NaN] \<rparr>)
                   NotFinite)
                (polls (state0\<lparr> psi_hat_xk := NaN, grad_hat_psi_k := [NaN] \<rparr>)))"
    unfolding stop_check_def
    by (simp only: partial_residual partial_call_sel) simp
  then have "iteration partial_call 0 (state0\<lparr> psi_hat_xk := NaN \<rparr>) =
      Some (Return \<lparr> res_x = [Fin (1025/1024)], res_z = [Fin 7], res_y = [Fin 1],
                     res_err_z = [Fin 7],
                     res_stats = \<lparr> iterations = 0, stats_eps = NaN, elapsed_time = 0,
                                   status = NotFinite, linesearch_failures = 0,
                                   lbfgs_failures = 0, lbfgs_rejected = 0 \<rparr>,
                     res_polls = 0 \<rparr>)"
    by (simp add: iteration_def partial_step_A partial_step_B keep_outputs_def fill_stats_def
        partial_residual partial_call_sel duration_cast_microseconds_def)
       (simp add: state0_def example_stats_def)
  from main_loop_Return [OF this] panoc_reaches [OF partial_state_at_0] show ?thesis
    by simp
qed




section \<open>The status of a returning iteration\<close>






section \<open>The outputs of a returning call\<close>

text \<open>
  Claim C1, as the code has it.  A call that enters the main loop and returns does so
  from the stop check of an iteration \<open>k\<close>, on the state \<open>st1\<close> that the upper-bound
  fit of that iteration leaves, in which the cached values belong to the iterate.  It
  fills \<open>iterations\<close>, \<open>\<epsilon>\<close>, \<open>elapsed_time\<close> and \<open>status\<close>.  With status
  \<open>Converged\<close>, \<open>MaxIter\<close>, \<open>MaxTime\<close> or \<open>Interrupted\<close> it writes \<open>x\<close> with the
  projected step \<open>xhat_k\<close>, \<open>y\<close> with the vector \<open>y\<close> computed at \<open>xhat_k\<close>, and
  \<open>(z, err_z)\<close> with the result of \<open>calc_zhat\<close> at \<open>xhat_k\<close>.  With status
  \<open>NotFinite\<close> it writes none of \<open>y\<close>, \<open>z\<close>, \<open>err_z\<close>.
\<close>

theorem outputs_on_termination:
  assumes "panoc c x = Some (Returns r)" and "state_at c x 0 = Some st0"
  shows "\<exists>k st st1.
           state_at c x k = Some st \<and> step_A c k st = Some st1 \<and> consistent c st1 \<and>
           iterations (res_stats r) = k \<and>
           stats_eps (res_stats r) = eps_k (step_B c k st1) \<and>
           elapsed_time (res_stats r) = duration_cast_microseconds (time_elapsed_at c k) \<and>
           (status (res_stats r) \<noteq> NotFinite \<longrightarrow>
              res_x r = xhat_k st1 \<and>
              res_y r = snd (calc_psi_yhat (problem c) (xhat_k st1) (y_in c) (Sigma_in c)) \<and>
              (res_z r, res_err_z r) = calc_zhat (problem c) (xhat_k st1) (y_in c) (Sigma_in c)) \<and>
           (status (res_stats r) = NotFinite \<longrightarrow>
              res_y r = y_in c \<and> res_z r = z_in c \<and> res_err_z r = err_z_in c)"
proof -
  from panoc_Returns [OF assms(1)] assms(2) obtain k st where
    at: "state_at c x k = Some st" and it: "iteration c k st = Some (Return r)"
    by auto
  from it obtain st1 where a: "step_A c k st = Some st1"
    and sc: "stop_check c k (step_B c k st1) = Return r"
    by (rule iteration_Return)
  have cons: "consistent c st1"
    using a state_at_consistent [OF at] by (auto intro: step_A_consistent)
  then have y: "yhat_xhat_k st1 = snd (calc_psi_yhat (problem c) (xhat_k st1) (y_in c) (Sigma_in c))"
    by (auto simp: consistent_def dest: arg_cong [where f = snd])
  note rs = stop_check_Return [OF sc]
  have "iterations (res_stats r) = k" "stats_eps (res_stats r) = eps_k (step_B c k st1)"
    "elapsed_time (res_stats r) = duration_cast_microseconds (time_elapsed_at c k)"
    by (subst rs(1), simp add: fill_stats_sel)+
  moreover have "status (res_stats r) \<noteq> NotFinite \<longrightarrow>
              res_x r = xhat_k st1 \<and>
              res_y r = snd (calc_psi_yhat (problem c) (xhat_k st1) (y_in c) (Sigma_in c)) \<and>
              (res_z r, res_err_z r) = calc_zhat (problem c) (xhat_k st1) (y_in c) (Sigma_in c)"
    using rs(2) write_outputs_sel(1-3) [of c "step_B c k st1" "res_stats r" "res_polls r"] y
    by (auto simp: step_B_sel)
  moreover have "status (res_stats r) = NotFinite \<longrightarrow>
              res_y r = y_in c \<and> res_z r = z_in c \<and> res_err_z r = err_z_in c"
    using rs(3) keep_outputs_sel [of c "x_caller (step_B c k st1)" "res_stats r" "res_polls r"]
    by auto
  ultimately show ?thesis
    using at a cons by blast
qed


theorem outputs_on_termination_witness:
  "\<exists>k st st1. state_at quad_call [Fin 1] k = Some st \<and> step_A quad_call k st = Some st1 \<and>
      k = 1 \<and> xhat_k st1 = [Fin (1/4)] \<and>
      snd (calc_psi_yhat (problem quad_call) (xhat_k st1) (y_in quad_call) (Sigma_in quad_call))
        = [Fin 0] \<and>
      calc_zhat (problem quad_call) (xhat_k st1) (y_in quad_call) (Sigma_in quad_call)
        = ([Fin (5/4)], [Fin (- 1)])"
  using outputs_on_termination [OF quad_call_run quad_state_at_0' [OF quad_call_def]]
  by (simp add: quad_result_def) metis


text \<open>
  Claim C1 fails as stated.  The oracle of \<open>partial_call\<close> returns NaN left of
  \<open>3/4\<close>; the first projected step is \<open>xhat\<^sub>0 = 1/2\<close>, the residual is NaN and the
  call returns \<open>NotFinite\<close> from iteration 0.  The caller's \<open>x\<close> is not \<open>xhat\<^sub>0\<close>,
  \<open>y\<close> is not the vector \<open>(0)\<close> computed at \<open>xhat\<^sub>0\<close>, and \<open>z\<close>, \<open>err_z\<close> still
  hold the 7 they held on entry, not the result of \<open>calc_zhat\<close>.
\<close>

theorem outputs_not_written_counterexample:
  "panoc partial_call [Fin 1] =
     Some (Returns \<lparr> res_x = [Fin (1025/1024)], res_z = [Fin 7], res_y = [Fin 1],
                     res_err_z = [Fin 7],
                     res_stats = \<lparr> iterations = 0, stats_eps = NaN, elapsed_time = 0,
                                   status = NotFinite, linesearch_failures = 0,
                                   lbfgs_failures = 0, lbfgs_rejected = 0 \<rparr>,
                     res_polls = 0 \<rparr>)
   \<and> map_option xhat_k (Option.bind (state_at partial_call [Fin 1] 0) (step_A partial_call 0))
       = Some [Fin (1/2)]
   \<and> calc_psi_yhat (problem partial_call) [Fin (1/2)] (y_in partial_call) (Sigma_in partial_call)
       = (NaN, [Fin 0])
   \<and> calc_zhat (problem partial_call) [Fin (1/2)] (y_in partial_call) (Sigma_in partial_call)
       = ([Fin (3/2)], [Fin (- 1)])"
  apply (simp only: partial_run partial_state_at_0 bind.bind_lunit partial_step_A)
  apply (simp add: state0_def partial_call_def partial_problem_def piece_problem_def
      example_call_sel calc_defs vec_defs)
  done

section \<open>The stopping residual\<close>

text \<open>
  Claim C8.  In every iteration \<open>k\<close> that a call reaches, the residual that the stop
  check tests on the state \<open>st1\<close> left by the upper-bound fit is
  \<open>\<parallel>(1/\<gamma>\<^sub>k) p\<^sub>k + (\<nabla>\<psi>(xhat\<^sub>k) - \<nabla>\<psi>(x\<^sub>k))\<parallel>\<^sub>\<infinity>\<close>, the scaled step and the difference of the
  gradients each formed before the sum; a call that returns from that iteration reports
  this value in \<open>Stats\<close>; and a call that returns with status \<open>Converged\<close> reports a
  residual that is at most the tolerance.
\<close>

theorem stopping_residual:
  assumes "panoc c x = Some (Returns r)"
  shows "(status (res_stats r) = Converged \<longrightarrow> stats_eps (res_stats r) \<le> eps_tol c) \<and>
         (\<forall>k st st1. state_at c x k = Some st \<and> step_A c k st = Some st1 \<longrightarrow>
            eps_k (step_B c k st1) =
              norm_inf (vadd (smul (Fin 1 div gamma_k st1) (pk st1))
                 (vsub (calc_grad_psi (problem c) (xhat_k st1) (y_in c) (Sigma_in c))
                       (calc_grad_psi (problem c) (xk st1) (y_in c) (Sigma_in c)))) \<and>
            (iteration c k st = Some (Return r) \<longrightarrow>
               stats_eps (res_stats r) = eps_k (step_B c k st1)))"
proof (intro conjI allI impI)
  assume conv: "status (res_stats r) = Converged"
  with panoc_Returns [OF assms] obtain k st where
    at: "state_at c x k = Some st" and it: "iteration c k st = Some (Return r)"
    by auto
  from it obtain st1 where sc: "stop_check c k (step_B c k st1) = Return r"
    by (rule iteration_Return)
  from stop_check_Return(1,5) [OF sc] conv
  have "eps_k (step_B c k st1) \<le> eps_tol c" and "stats_eps (res_stats r) = eps_k (step_B c k st1)"
    by (simp, metis fill_stats_sel(2))
  then show "stats_eps (res_stats r) \<le> eps_tol c" by simp
next
  fix k st st1
  assume "state_at c x k = Some st \<and> step_A c k st = Some st1"
  then have "consistent c st1"
    using state_at_consistent step_A_consistent by blast
  then show "eps_k (step_B c k st1) =
              norm_inf (vadd (smul (Fin 1 div gamma_k st1) (pk st1))
                 (vsub (calc_grad_psi (problem c) (xhat_k st1) (y_in c) (Sigma_in c))
                       (calc_grad_psi (problem c) (xk st1) (y_in c) (Sigma_in c))))"
    by (rule residual_step_B)
next
  fix k st st1
  assume a: "state_at c x k = Some st \<and> step_A c k st = Some st1"
    and it: "iteration c k st = Some (Return r)"
  from it obtain st1' where a': "step_A c k st = Some st1'"
    and sc: "stop_check c k (step_B c k st1') = Return r"
    by (rule iteration_Return)
  from a a' have "st1' = st1" by simp
  with stop_check_Return(1) [OF sc] show "stats_eps (res_stats r) = eps_k (step_B c k st1)"
    by (metis fill_stats_sel(2))
qed

theorem stopping_residual_witness:
  "stats_eps (res_stats quad_result) \<le> eps_tol quad_call \<and>
   eps_k (step_B quad_call (Suc 0) state1) =
     norm_inf (vadd (smul (Fin 1 div gamma_k state1) (pk state1))
        (vsub (calc_grad_psi (problem quad_call) (xhat_k state1) (y_in quad_call) (Sigma_in quad_call))
              (calc_grad_psi (problem quad_call) (xk state1) (y_in quad_call) (Sigma_in quad_call)))) \<and>
   stats_eps (res_stats quad_result) = eps_k (step_B quad_call (Suc 0) state1)"
proof -
  note r = stopping_residual [OF quad_call_run]
  from r have "status (res_stats quad_result) = Converged
      \<longrightarrow> stats_eps (res_stats quad_result) \<le> eps_tol quad_call"
    by (rule conjunct1)
  moreover from r have "state_at quad_call [Fin 1] (Suc 0) = Some state1
        \<and> step_A quad_call (Suc 0) state1 = Some state1 \<longrightarrow>
      eps_k (step_B quad_call (Suc 0) state1) =
        norm_inf (vadd (smul (Fin 1 div gamma_k state1) (pk state1))
          (vsub (calc_grad_psi (problem quad_call) (xhat_k state1) (y_in quad_call)
                   (Sigma_in quad_call))
                (calc_grad_psi (problem quad_call) (xk state1) (y_in quad_call)
                   (Sigma_in quad_call)))) \<and>
      (iteration quad_call (Suc 0) state1 = Some (Return quad_result) \<longrightarrow>
         stats_eps (res_stats quad_result) = eps_k (step_B quad_call (Suc 0) state1))"
    by blast
  ultimately show ?thesis
    using quad_call_state_at_1 quad_call_step_1(1) quad_call_iteration_1
    by (simp add: quad_result_def)
qed


section \<open>The stop signal\<close>





section \<open>The step-size scalars\<close>






















section \<open>The Lipschitz bootstrap\<close>

lemma lipschitz_estimate_h:
  assumes "lipschitz_estimate c x = (h, x', g1, \<psi>0, g0, L)"
    and "Lipschitz_eps (Lipschitz (params c)) = Fin e" and "0 \<le> e"
    and "Lipschitz_delta (Lipschitz (params c)) = Fin d"
    and "i < length x" and "x ! i = Fin t"
  shows "h ! i = Fin (max d (e * \<bar>t\<bar>))"
proof -
  from assms(1) have h: "h = cwiseMax (cwiseAbs (vscale x (Fin e))) (Fin d)"
    by (auto simp: lipschitz_estimate_def Let_def assms(2,4) split: prod.splits)
  show ?thesis
    using assms(3,5,6) by (auto simp: h cwiseMax_def cwiseAbs_def vscale_def abs_mult max_def mult.commute)
qed

lemma lipschitz_estimate_parts:
  assumes "lipschitz_estimate c x = (h, x', g1, \<psi>0, g0, L)"
  shows "g0 = calc_grad_psi (problem c) x (y_in c) (Sigma_in c)"
    and "g1 = calc_grad_psi (problem c) (vadd x h) (y_in c) (Sigma_in c)"
    and "L = norm_t (vsub g1 g0) div norm_t h"
  using assms grad_psi_fused [of "problem c" x "y_in c" "Sigma_in c"]
  by (auto simp: lipschitz_estimate_def Let_def split: prod.splits)

lemma panoc_not_finite:
  assumes "lipschitz_estimate c x = (h, x', g1, \<psi>0, g0, L)" and "\<not> isfinite L"
  shows "state_at c x 0 = None"
    and "panoc c x = Some (Returns (keep_outputs c x' ((stats_default c)\<lparr> status := NotFinite \<rparr>) 0))"
proof -
  have "\<not> L < epsilon"
    using assms lipschitz_estimate_nonneg nonneg_not_finite_not_less by blast
  then show "state_at c x 0 = None"
    and "panoc c x = Some (Returns (keep_outputs c x' ((stats_default c)\<lparr> status := NotFinite \<rparr>) 0))"
    using assms by (simp_all add: panoc_def state_at.simps)
qed

lemma panoc_initial:
  assumes "lipschitz_estimate c x = (h, x', g1, \<psi>0, g0, L)" and "L < epsilon \<or> isfinite L"
  shows "\<exists>st. state_at c x 0 = Some st \<and> panoc c x = main_loop c 0 st \<and>
           Lk st = (if L < epsilon then epsilon else L) \<and>
           gamma_k st = Lgamma_factor (Lipschitz (params c)) div Lk st \<and>
           sigma_k st = gamma_k st * (Fin 1 - gamma_k st * Lk st) div Fin 2"
  using assms
  by (auto simp: panoc_def state_at.simps initial_state_def Let_def case_prod_beta)


text \<open>
  Claim C6.  The Lipschitz bootstrap computes the perturbation componentwise as
  \<open>h\<^sub>i = max(\<delta>, \<epsilon> |x\<^sub>i|)\<close> (for a factor \<open>\<epsilon> \<ge> 0\<close> and finite \<open>x\<^sub>i\<close>), evaluates \<open>\<nabla>\<psi>\<close> at
  \<open>x\<close> and at \<open>x + h\<close>, and sets \<open>L\<^sub>0 = \<parallel>\<nabla>\<psi>(x + h) - \<nabla>\<psi>(x)\<parallel>\<^sub>2 / \<parallel>h\<parallel>\<^sub>2\<close>.  When \<open>L\<^sub>0\<close> is
  below the machine epsilon the main loop is entered with \<open>L\<^sub>0\<close> replaced by the machine
  epsilon; when \<open>L\<^sub>0\<close> is not finite the call returns with status \<open>NotFinite\<close> without
  entering the main loop; otherwise the main loop is entered with \<open>L\<^sub>0\<close>; and the main
  loop is entered with \<open>\<gamma>\<^sub>0 = Lgamma_factor / L\<^sub>0\<close> and \<open>\<sigma>\<^sub>0 = \<gamma>\<^sub>0 (1 - \<gamma>\<^sub>0 L\<^sub>0) / 2\<close>.
\<close>

theorem lipschitz_bootstrap:
  assumes "lipschitz_estimate c x = (h, x', g1, \<psi>0, g0, L)"
    and "Lipschitz_eps (Lipschitz (params c)) = Fin e" and "0 \<le> e"
    and "Lipschitz_delta (Lipschitz (params c)) = Fin d"
  shows "length h = length x \<and>
         (\<forall>i t. i < length x \<and> x ! i = Fin t \<longrightarrow> h ! i = Fin (max d (e * \<bar>t\<bar>))) \<and>
         g0 = calc_grad_psi (problem c) x (y_in c) (Sigma_in c) \<and>
         g1 = calc_grad_psi (problem c) (vadd x h) (y_in c) (Sigma_in c) \<and>
         L = norm_t (vsub g1 g0) div norm_t h \<and>
         (L < epsilon \<or> isfinite L \<longrightarrow>
            (\<exists>st. state_at c x 0 = Some st \<and> panoc c x = main_loop c 0 st \<and>
               Lk st = (if L < epsilon then epsilon else L) \<and>
               gamma_k st = Lgamma_factor (Lipschitz (params c)) div Lk st \<and>
               sigma_k st = gamma_k st * (Fin 1 - gamma_k st * Lk st) div Fin 2)) \<and>
         (\<not> isfinite L \<longrightarrow>
            state_at c x 0 = None \<and>
            (\<exists>r. panoc c x = Some (Returns r) \<and> status (res_stats r) = NotFinite))"
proof (intro conjI allI impI)
  from assms(1) show "length h = length x"
    by (auto simp: lipschitz_estimate_def Let_def cwiseMax_def cwiseAbs_def vscale_def
        split: prod.splits)
next
  fix i t
  assume "i < length x \<and> x ! i = Fin t"
  then show "h ! i = Fin (max d (e * \<bar>t\<bar>))"
    using lipschitz_estimate_h [OF assms] by blast
next
  assume "L < epsilon \<or> isfinite L"
  with assms(1) show "\<exists>st. state_at c x 0 = Some st \<and> panoc c x = main_loop c 0 st \<and>
               Lk st = (if L < epsilon then epsilon else L) \<and>
               gamma_k st = Lgamma_factor (Lipschitz (params c)) div Lk st \<and>
               sigma_k st = gamma_k st * (Fin 1 - gamma_k st * Lk st) div Fin 2"
    by (rule panoc_initial)
next
  assume "\<not> isfinite L"
  with assms(1) show "state_at c x 0 = None"
    by (rule panoc_not_finite)
next
  assume "\<not> isfinite L"
  with assms(1) have "panoc c x =
      Some (Returns (keep_outputs c x' ((stats_default c)\<lparr> status := NotFinite \<rparr>) 0))"
    by (rule panoc_not_finite)
  then show "\<exists>r. panoc c x = Some (Returns r) \<and> status (res_stats r) = NotFinite"
    by (simp add: keep_outputs_sel)
qed (simp_all add: lipschitz_estimate_parts [OF assms(1)])

theorem lipschitz_bootstrap_witness:
  "lipschitz_estimate quad_call [Fin 1] =
     ([Fin (1/1024)], [Fin (1025/1024)], [Fin (1025/4096)], Fin (1/8), [Fin (1/4)], Fin (1/4)) \<and>
   [Fin (1/1024)] ! 0 = Fin (max (1/1048576) (1/1024 * \<bar>1\<bar>)) \<and>
   state_at quad_call [Fin 1] 0 = Some state0 \<and>
   Lk state0 = Fin (1/4) \<and>
   gamma_k state0 = Lgamma_factor (Lipschitz (params quad_call)) div Fin (1/4) \<and>
   sigma_k state0 = gamma_k state0 * (Fin 1 - gamma_k state0 * Fin (1/4)) div Fin 2 \<and>
   lipschitz_estimate nan_call [Fin 1] =
     ([Fin (1/1024)], [Fin (1025/1024)], [NaN], NaN, [NaN], NaN) \<and>
   (\<exists>r. panoc nan_call [Fin 1] = Some (Returns r) \<and> status (res_stats r) = NotFinite)"
proof -
  have q: "lipschitz_estimate quad_call [Fin 1] =
     ([Fin (1/1024)], [Fin (1025/1024)], [Fin (1025/4096)], Fin (1/8), [Fin (1/4)], Fin (1/4))"
    by (rule quad_estimate [of _ "\<lambda>t. True" NaN NaN 10 1 "Fin (1/4)" "\<lambda>k. 5000 * int k"
          "\<lambda>k. False"])
       (simp_all add: quad_call_def quad_problem_def)
  have pq: "Lipschitz_eps (Lipschitz (params quad_call)) = Fin (1/1024)"
    "Lipschitz_delta (Lipschitz (params quad_call)) = Fin (1/1048576)"
    by (simp_all add: quad_call_def example_call_sel example_params_def)
  have pn: "Lipschitz_eps (Lipschitz (params nan_call)) = Fin (1/1024)"
    "Lipschitz_delta (Lipschitz (params nan_call)) = Fin (1/1048576)"
    by (simp_all add: nan_call_def example_call_sel example_params_def)
  have at0: "state_at quad_call [Fin 1] 0 = Some state0"
    by (rule quad_state_at_0' [OF quad_call_def])
  note rq = lipschitz_bootstrap [OF q pq(1) _ pq(2)]
  note rn = lipschitz_bootstrap [OF nan_call_estimate pn(1) _ pn(2)]
  have "[Fin 1] ! 0 = Fin 1 \<longrightarrow> [Fin (1/1024)] ! 0 = Fin (max (1/1048576) (1/1024 * \<bar>1\<bar>))"
    using rq by auto
  then have a: "[Fin (1/1024)] ! 0 = Fin (max (1/1048576) (1/1024 * \<bar>1\<bar>))"
    by simp
  have "\<exists>st. state_at quad_call [Fin 1] 0 = Some st \<and>
               Lk st = (if Fin (1/4) < epsilon then epsilon else Fin (1/4)) \<and>
               gamma_k st = Lgamma_factor (Lipschitz (params quad_call)) div Lk st \<and>
               sigma_k st = gamma_k st * (Fin 1 - gamma_k st * Lk st) div Fin 2"
    using rq by auto
  then have b: "Lk state0 = Fin (1/4) \<and>
      gamma_k state0 = Lgamma_factor (Lipschitz (params quad_call)) div Fin (1/4) \<and>
      sigma_k state0 = gamma_k state0 * (Fin 1 - gamma_k state0 * Fin (1/4)) div Fin 2"
    by (auto simp: at0 epsilon_def)
  have c: "\<exists>r. panoc nan_call [Fin 1] = Some (Returns r) \<and> status (res_stats r) = NotFinite"
    using rn by simp
  from q a at0 b c nan_call_estimate show ?thesis
    by blast
qed


section \<open>The projected gradient step\<close>


lemma calc_xhat_length:
  assumes "i < length (fst (calc_xhat prob \<gamma> x gr))"
  shows "i < length x" "i < length gr" "i < length (lowerbound (C prob))"
    "i < length (upperbound (C prob))"
  using assms by (simp_all add: calc_xhat_def Let_def binaryExpr_def vadd_def vsub_def smul_def)









section \<open>The quadratic upper bound\<close>
















lemma quad_call_line_search_0:
  "line_search quad_call (state0\<lparr> grad_hat_psi_k := [Fin (1/8)], polls := 1 \<rparr>) (Fin 0)
     = Some (quad_ls_state, quad_ls_vars)"
  using quad_line_search_0 [of quad_call "\<lambda>t. True" NaN NaN 10 1 "Fin (1/4)"
      "\<lambda>k. 5000 * int k" "\<lambda>k. False"]
  by (simp add: quad_call_def quad_problem_def quad_ls_state_def quad_ls_vars_def)









section \<open>The line search\<close>

lemma sub_le_zero_t: "a - b \<le> Fin 0 \<Longrightarrow> a \<le> (b :: real_t)"
  by (cases a; cases b) (simp_all add: minus_real_t_def)

lemma ls_finish_sel:
  "ls_cond (ls_finish \<phi> \<sigma>n lv) = phi_k1 (ls_finish \<phi> \<sigma>n lv) - (\<phi> - \<sigma>n)"
  "tau (ls_finish \<phi> \<sigma>n lv) = tau lv div Fin 2"
  "phi_k1 (ls_finish \<phi> \<sigma>n lv) =
     psi_k1 lv + Fin 1 div (Fin 2 * gamma_k1 lv) * norm_sq_pk1 lv + grad_psi_k1Tpk1 lv"
  by (simp_all add: ls_finish_def Let_def)

lemma tau_ls_candidate: "tau (snd (ls_candidate c st lv)) = tau lv"
  by (simp add: ls_candidate_def Let_def case_prod_beta)

lemma tau_ls_upper_bound_step: "tau (snd (ls_upper_bound_step c sl)) = tau (snd sl)"
  by (simp add: ls_upper_bound_step_def Let_def case_prod_beta)

lemma frame_E_phi: "frame_E s = frame_E s' \<Longrightarrow> phi_k s = phi_k s' \<and> stats s = stats s'"
  by (simp add: frame_E_def)

lemma ls_pass_cond:
  assumes "ls_pass c \<sigma>n sl = Some sl'"
  shows "ls_cond (snd sl') = phi_k1 (snd sl') - (phi_k (fst sl) - \<sigma>n)"
    and "tau (snd sl') = tau (snd sl) div Fin 2"
proof -
  from ls_pass_invariant [OF assms,
      of "\<lambda>s. frame_E (fst s) = frame_E (fst sl) \<and> tau (snd s) = tau (snd sl)"]
  obtain s where s: "frame_E (fst s) = frame_E (fst sl)" "tau (snd s) = tau (snd sl)"
    "sl' = (fst s, ls_finish (phi_k (fst s)) \<sigma>n (snd s))"
    by (auto simp: frame_E_ls_candidate frame_E_ls_upper_bound_step tau_ls_candidate
        tau_ls_upper_bound_step)
  from s(1) have "phi_k (fst s) = phi_k (fst sl)"
    using frame_E_phi by blast
  with s show "ls_cond (snd sl') = phi_k1 (snd sl') - (phi_k (fst sl) - \<sigma>n)"
    and "tau (snd sl') = tau (snd sl) div Fin 2"
    by (simp_all add: ls_finish_sel)
qed

lemma ls_loop_unfold:
  assumes "ls_pass c \<sigma>n sl = Some sl'"
  shows "ls_loop c \<sigma>n sl = (if ls_continue c (snd sl') then ls_loop c \<sigma>n sl' else Some sl')"
  by (cases "ls_continue c (snd sl')")
     (simp_all add: ls_loop_accept [OF assms] ls_loop_retry [OF assms])

lemma line_search_cond:
  assumes "line_search c st \<tau>0 = Some (st', lv)"
  shows "ls_cond lv = phi_k1 lv - (phi_k st - sigma_norm_gamma_inv_pk st)"
    and "\<not> ls_continue c lv"
proof -
  have "(frame_E (fst (st', lv)) = frame_E st \<and>
         ls_cond (snd (st', lv)) = phi_k1 (snd (st', lv)) - (phi_k st - sigma_norm_gamma_inv_pk st))
        \<and> \<not> ls_continue c (snd (st', lv))"
  proof (rule ls_loop_rule [OF assms [unfolded line_search_def],
        where P = "\<lambda>s. frame_E (fst s) = frame_E st"])
    show "frame_E (fst (st, \<lparr>phi_k1 = uninit_t c, psi_k1 = uninit_t c, psi_hat_xk1 = uninit_t c,
                 grad_psi_k1Tpk1 = uninit_t c, norm_sq_pk1 = uninit_t c, tau = \<tau>0,
                 Lk1 = uninit_t c, sigma_k1 = uninit_t c, gamma_k1 = uninit_t c,
                 ls_cond = uninit_t c\<rparr>)) = frame_E st"
      by simp
  next
    fix s s'
    assume fr: "frame_E (fst s) = frame_E st"
      and pass: "ls_pass c (sigma_norm_gamma_inv_pk st) s = Some s'"
    from fr have "phi_k (fst s) = phi_k st"
      using frame_E_phi by blast
    with ls_pass_cond(1) [OF pass] ls_pass_consistent [OF pass] fr
    show "(frame_E (fst s') = frame_E st \<and>
           ls_cond (snd s') = phi_k1 (snd s') - (phi_k st - sigma_norm_gamma_inv_pk st)) \<and>
          (ls_continue c (snd s') \<longrightarrow> frame_E (fst s') = frame_E st)"
      by simp
  qed
  then show "ls_cond lv = phi_k1 lv - (phi_k st - sigma_norm_gamma_inv_pk st)"
    and "\<not> ls_continue c lv"
    by simp_all
qed

lemma frame_A_phi: "frame_A s = frame_A s' \<Longrightarrow> phi_k s = phi_k s' \<and> stats s = stats s'"
  by (simp add: frame_A_def)

lemma quasi_newton_keeps:
  "phi_k (fst (quasi_newton c k s)) = phi_k s"
  "sigma_norm_gamma_inv_pk (fst (quasi_newton c k s)) = sigma_norm_gamma_inv_pk s"
  "linesearch_failures (stats (fst (quasi_newton c k s))) = linesearch_failures (stats s)"
  by (simp_all add: quasi_newton_def sigma_norm_gamma_inv_pk_def Let_def case_prod_beta)

lemma step_B_keeps:
  "phi_k ((step_B c k s)\<lparr> polls := n \<rparr>) = phi_k s"
  "sigma_norm_gamma_inv_pk ((step_B c k s)\<lparr> polls := n \<rparr>) = sigma_norm_gamma_inv_pk s"
  "stats ((step_B c k s)\<lparr> polls := n \<rparr>) = stats s"
  by (simp_all add: step_B_def sigma_norm_gamma_inv_pk_def Let_def)

lemma advance_keeps:
  "phi_k (advance lv (update_lbfgs c lv (count_linesearch_failure c k lv s))) = phi_k1 lv"
  "linesearch_failures (stats (advance lv (update_lbfgs c lv (count_linesearch_failure c k lv s))))
     = linesearch_failures (stats s) + (if tau lv < tau_min (params c) \<and> k \<noteq> 0 then 1 else 0)"
  by (simp_all add: advance_def update_lbfgs_def count_linesearch_failure_def case_prod_beta)

lemma iteration_Continue_line_search:
  assumes "iteration c k st = Some (Continue st')"
  shows "\<exists>st1 s3 \<tau>0 s4 lv.
           step_A c k st = Some st1 \<and>
           line_search c s3 \<tau>0 = Some (s4, lv) \<and>
           phi_k s3 = phi_k st \<and>
           sigma_norm_gamma_inv_pk s3 = sigma_norm_gamma_inv_pk st1 \<and>
           ls_cond lv = phi_k1 lv - (phi_k st - sigma_norm_gamma_inv_pk st1) \<and>
           \<not> (Fin 0 < ls_cond lv \<and> tau_min (params c) \<le> tau lv) \<and>
           phi_k st' = phi_k1 lv \<and>
           (ls_cond lv \<le> Fin 0 \<longrightarrow> phi_k st' \<le> phi_k st - sigma_norm_gamma_inv_pk st1) \<and>
           linesearch_failures (stats st') =
             linesearch_failures (stats st) +
               (if tau lv < tau_min (params c) \<and> k \<noteq> 0 then 1 else 0)"
proof -
  from assms obtain st1 st3 \<tau>0 st4 lv where
    a: "step_A c k st = Some st1"
    and q: "quasi_newton c k ((step_B c k st1)\<lparr> polls := polls st1 + 1 \<rparr>) = (st3, \<tau>0)"
    and ls: "line_search c st3 \<tau>0 = Some (st4, lv)"
    and e: "st' = advance lv (update_lbfgs c lv (count_linesearch_failure c k lv st4))"
    by (rule iteration_Continue)
  have fa: "phi_k st1 = phi_k st" "stats st1 = stats st"
    using step_A_frame [OF a] frame_A_phi by blast+
  have q3: "phi_k st3 = phi_k st1" "sigma_norm_gamma_inv_pk st3 = sigma_norm_gamma_inv_pk st1"
    "linesearch_failures (stats st3) = linesearch_failures (stats st1)"
    using quasi_newton_keeps [of c k "(step_B c k st1)\<lparr> polls := polls st1 + 1 \<rparr>"] q
    by (simp_all add: step_B_keeps)
  have f4: "stats st4 = stats st3"
    using line_search_consistent(2) [OF ls] frame_E_phi by blast
  have cond: "ls_cond lv = phi_k1 lv - (phi_k st - sigma_norm_gamma_inv_pk st1)"
    using line_search_cond(1) [OF ls] by (simp add: q3 fa)
  have acc: "\<not> (Fin 0 < ls_cond lv \<and> tau_min (params c) \<le> tau lv)"
    using line_search_cond(2) [OF ls] by (simp add: ls_continue_def)
  have phi: "phi_k st' = phi_k1 lv"
    by (simp add: e advance_keeps)
  have dec: "ls_cond lv \<le> Fin 0 \<longrightarrow> phi_k st' \<le> phi_k st - sigma_norm_gamma_inv_pk st1"
    using sub_le_zero_t [of "phi_k1 lv" "phi_k st - sigma_norm_gamma_inv_pk st1"]
    by (simp add: cond [symmetric] phi)
  have fail: "linesearch_failures (stats st') =
             linesearch_failures (stats st) +
               (if tau lv < tau_min (params c) \<and> k \<noteq> 0 then 1 else 0)"
    by (simp only: e advance_keeps f4 q3 fa)
  from a ls q3(1) fa(1) q3(2) cond acc phi dec fail show ?thesis
    by (intro exI [of _ st1] exI [of _ st3] exI [of _ \<tau>0] exI [of _ st4] exI [of _ lv]) simp
qed


lemma quad_call_iteration_0: "iteration quad_call 0 state0 = Some (Continue state1)"
  by (rule quad_iteration_0 [of _ "\<lambda>t. True" NaN NaN 10 1 "Fin (1/4)" "\<lambda>k. 5000 * int k"
        "\<lambda>k. False"])
     (simp_all add: quad_call_def quad_problem_def)

lemma quad_phi_values:
  "phi_k state0 = Fin (1/16)" "phi_k state1 = Fin (1/64)"
  "sigma_norm_gamma_inv_pk state0 = Fin (1/32)" "spec_sufficient_decrease state0 = Fin (1/16)"
  "linesearch_failures (stats state0) = 0" "linesearch_failures (stats state1) = 0"
  "ls_cond quad_ls_vars = Fin (- (1/64))" "phi_k1 quad_ls_vars = Fin (1/64)"
  "tau quad_ls_vars = Fin 0" "tau_min (params quad_call) = Fin (1/256)"
  by (simp_all add: state0_def state1_def sigma_norm_gamma_inv_pk_def spec_sufficient_decrease_def
      example_stats_def quad_ls_vars_def quad_call_def example_call_sel example_params_def)

text \<open>
  Claim C3 (as the code has it).  A pass of the line search halves \<open>\<tau>\<close> and sets
  \<open>ls_cond = \<phi>\<^sub>k\<^sub>+\<^sub>1 - (\<phi>\<^sub>k - \<sigma>\<^sub>k \<parallel>p\<^sub>k\<parallel>\<^sup>2 / \<gamma>\<^sub>k\<^sup>2)\<close>; its candidate is accepted exactly when
  \<open>ls_cond > 0 \<and> \<tau> \<ge> \<tau>_min\<close> is false.  In an iteration that continues, the variable
  \<open>\<phi>\<close> of the next iteration is the \<open>\<phi>\<^sub>k\<^sub>+\<^sub>1\<close> of the accepted candidate; if the candidate
  was accepted with \<open>ls_cond \<le> 0\<close> then \<open>\<phi>\<close> has decreased by at least
  \<open>\<sigma>\<^sub>k \<parallel>p\<^sub>k\<parallel>\<^sup>2 / \<gamma>\<^sub>k\<^sup>2\<close>, for the \<open>\<sigma>\<^sub>k\<close>, \<open>p\<^sub>k\<close>, \<open>\<gamma>\<^sub>k\<close> that the upper-bound fit leaves; and
  \<open>linesearch_failures\<close> is incremented exactly when \<open>\<tau> < \<tau>_min\<close> and \<open>k \<noteq> 0\<close>.
\<close>

theorem line_search_acceptance:
  assumes "iteration c k st = Some (Continue st')"
  shows "(\<exists>st1 s3 \<tau>0 s4 lv.
           step_A c k st = Some st1 \<and>
           line_search c s3 \<tau>0 = Some (s4, lv) \<and>
           phi_k s3 = phi_k st \<and>
           sigma_norm_gamma_inv_pk s3 = sigma_norm_gamma_inv_pk st1 \<and>
           ls_cond lv = phi_k1 lv - (phi_k st - sigma_norm_gamma_inv_pk st1) \<and>
           \<not> (Fin 0 < ls_cond lv \<and> tau_min (params c) \<le> tau lv) \<and>
           phi_k st' = phi_k1 lv \<and>
           (ls_cond lv \<le> Fin 0 \<longrightarrow> phi_k st' \<le> phi_k st - sigma_norm_gamma_inv_pk st1) \<and>
           linesearch_failures (stats st') =
             linesearch_failures (stats st) +
               (if tau lv < tau_min (params c) \<and> k \<noteq> 0 then 1 else 0)) \<and>
         (\<forall>\<sigma>n sl sl'. ls_pass c \<sigma>n sl = Some sl' \<longrightarrow>
            ls_cond (snd sl') = phi_k1 (snd sl') - (phi_k (fst sl) - \<sigma>n) \<and>
            tau (snd sl') = tau (snd sl) div Fin 2 \<and>
            ls_loop c \<sigma>n sl =
              (if Fin 0 < ls_cond (snd sl') \<and> tau_min (params c) \<le> tau (snd sl')
               then ls_loop c \<sigma>n sl' else Some sl')) \<and>
         (\<forall>s \<tau>0. line_search c s \<tau>0 =
            ls_loop c (sigma_k s * norm_sq_pk s div (gamma_k s * gamma_k s))
              (s, \<lparr> phi_k1 = uninit_t c, psi_k1 = uninit_t c, psi_hat_xk1 = uninit_t c,
                    grad_psi_k1Tpk1 = uninit_t c, norm_sq_pk1 = uninit_t c, tau = \<tau>0,
                    Lk1 = uninit_t c, sigma_k1 = uninit_t c, gamma_k1 = uninit_t c,
                    ls_cond = uninit_t c \<rparr>))"
proof (intro conjI allI impI)
  show "\<exists>st1 s3 \<tau>0 s4 lv.
           step_A c k st = Some st1 \<and>
           line_search c s3 \<tau>0 = Some (s4, lv) \<and>
           phi_k s3 = phi_k st \<and>
           sigma_norm_gamma_inv_pk s3 = sigma_norm_gamma_inv_pk st1 \<and>
           ls_cond lv = phi_k1 lv - (phi_k st - sigma_norm_gamma_inv_pk st1) \<and>
           \<not> (Fin 0 < ls_cond lv \<and> tau_min (params c) \<le> tau lv) \<and>
           phi_k st' = phi_k1 lv \<and>
           (ls_cond lv \<le> Fin 0 \<longrightarrow> phi_k st' \<le> phi_k st - sigma_norm_gamma_inv_pk st1) \<and>
           linesearch_failures (stats st') =
             linesearch_failures (stats st) +
               (if tau lv < tau_min (params c) \<and> k \<noteq> 0 then 1 else 0)"
    using assms by (rule iteration_Continue_line_search)
next
  fix \<sigma>n sl sl'
  assume pass: "ls_pass c \<sigma>n sl = Some sl'"
  show "ls_cond (snd sl') = phi_k1 (snd sl') - (phi_k (fst sl) - \<sigma>n)"
    using pass by (rule ls_pass_cond)
  show "tau (snd sl') = tau (snd sl) div Fin 2"
    using pass by (rule ls_pass_cond)
  show "ls_loop c \<sigma>n sl =
              (if Fin 0 < ls_cond (snd sl') \<and> tau_min (params c) \<le> tau (snd sl')
               then ls_loop c \<sigma>n sl' else Some sl')"
    using ls_loop_unfold [OF pass] by (simp add: ls_continue_def)
next
  fix s \<tau>0
  show "line_search c s \<tau>0 =
            ls_loop c (sigma_k s * norm_sq_pk s div (gamma_k s * gamma_k s))
              (s, \<lparr> phi_k1 = uninit_t c, psi_k1 = uninit_t c, psi_hat_xk1 = uninit_t c,
                    grad_psi_k1Tpk1 = uninit_t c, norm_sq_pk1 = uninit_t c, tau = \<tau>0,
                    Lk1 = uninit_t c, sigma_k1 = uninit_t c, gamma_k1 = uninit_t c,
                    ls_cond = uninit_t c \<rparr>)"
    by (simp add: line_search_def sigma_norm_gamma_inv_pk_def)
qed

theorem line_search_acceptance_witness:
  "iteration quad_call 0 state0 = Some (Continue state1) \<and>
   step_A quad_call 0 state0 = Some state0 \<and>
   phi_k state1 - (phi_k state0 - sigma_norm_gamma_inv_pk state0) \<le> Fin 0 \<and>
   phi_k state1 \<le> phi_k state0 - sigma_norm_gamma_inv_pk state0 \<and>
   linesearch_failures (stats state1) = linesearch_failures (stats state0)"
proof -
  from line_search_acceptance [OF quad_call_iteration_0]
  have "\<exists>st1 s3 \<tau>0 s4 lv.
           step_A quad_call 0 state0 = Some st1 \<and>
           line_search quad_call s3 \<tau>0 = Some (s4, lv) \<and>
           phi_k s3 = phi_k state0 \<and>
           sigma_norm_gamma_inv_pk s3 = sigma_norm_gamma_inv_pk st1 \<and>
           ls_cond lv = phi_k1 lv - (phi_k state0 - sigma_norm_gamma_inv_pk st1) \<and>
           \<not> (Fin 0 < ls_cond lv \<and> tau_min (params quad_call) \<le> tau lv) \<and>
           phi_k state1 = phi_k1 lv \<and>
           (ls_cond lv \<le> Fin 0 \<longrightarrow> phi_k state1 \<le> phi_k state0 - sigma_norm_gamma_inv_pk st1) \<and>
           linesearch_failures (stats state1) =
             linesearch_failures (stats state0) +
               (if tau lv < tau_min (params quad_call) \<and> (0::nat) \<noteq> 0 then 1 else 0)"
    by (rule conjunct1)
  then obtain st1 s3 \<tau>0 s4 lv where all:
    "step_A quad_call 0 state0 = Some st1 \<and>
     line_search quad_call s3 \<tau>0 = Some (s4, lv) \<and>
     phi_k s3 = phi_k state0 \<and>
     sigma_norm_gamma_inv_pk s3 = sigma_norm_gamma_inv_pk st1 \<and>
     ls_cond lv = phi_k1 lv - (phi_k state0 - sigma_norm_gamma_inv_pk st1) \<and>
     \<not> (Fin 0 < ls_cond lv \<and> tau_min (params quad_call) \<le> tau lv) \<and>
     phi_k state1 = phi_k1 lv \<and>
     (ls_cond lv \<le> Fin 0 \<longrightarrow> phi_k state1 \<le> phi_k state0 - sigma_norm_gamma_inv_pk st1) \<and>
     linesearch_failures (stats state1) =
       linesearch_failures (stats state0) +
         (if tau lv < tau_min (params quad_call) \<and> (0::nat) \<noteq> 0 then 1 else 0)"
    by blast
  from all have a: "step_A quad_call 0 state0 = Some st1"
    and cond: "ls_cond lv = phi_k1 lv - (phi_k state0 - sigma_norm_gamma_inv_pk st1)"
    and phi: "phi_k state1 = phi_k1 lv"
    and dec: "ls_cond lv \<le> Fin 0 \<longrightarrow> phi_k state1 \<le> phi_k state0 - sigma_norm_gamma_inv_pk st1"
    by blast+
  from all have fail: "linesearch_failures (stats state1) = linesearch_failures (stats state0)"
    by simp
  from a have st1: "st1 = state0"
    by (simp add: quad_step_A)
  have le: "phi_k state1 - (phi_k state0 - sigma_norm_gamma_inv_pk state0) \<le> Fin 0"
    by (simp add: quad_phi_values minus_real_t_def)
  with cond phi dec st1 have "phi_k state1 \<le> phi_k state0 - sigma_norm_gamma_inv_pk state0"
    by simp
  with le fail quad_call_iteration_0 quad_step_A [of quad_call] show ?thesis
    by simp
qed

text \<open>
  Claim C3 as stated fails in iteration 0 of the quadratic, where \<open>\<gamma>\<^sub>0 = 2\<close>: the
  candidate is accepted with \<open>ls_cond = -1/64 \<le> 0\<close>, the code's decrease
  \<open>\<sigma>\<^sub>0 \<parallel>p\<^sub>0\<parallel>\<^sup>2 / \<gamma>\<^sub>0\<^sup>2\<close> is \<open>1/32\<close> and the decrease \<open>\<sigma>\<^sub>0 \<parallel>p\<^sub>0\<parallel>\<^sup>2 / \<gamma>\<^sub>0\<^sup>2 \<cdot> \<gamma>\<^sub>0\<close> of the claim is
  \<open>1/16\<close>, while \<open>\<phi>\<close> goes from \<open>1/16\<close> to \<open>1/64\<close>: \<open>\<phi>\<^sub>1 \<le> \<phi>\<^sub>0 - 1/16\<close> does not hold.
\<close>

theorem sufficient_decrease_counterexample:
  "state_at quad_call [Fin 1] 0 = Some state0 \<and>
   step_A quad_call 0 state0 = Some state0 \<and>
   line_search quad_call (state0\<lparr> grad_hat_psi_k := [Fin (1/8)], polls := 1 \<rparr>) (Fin 0)
     = Some (quad_ls_state, quad_ls_vars) \<and>
   iteration quad_call 0 state0 = Some (Continue state1) \<and>
   ls_cond quad_ls_vars \<le> Fin 0 \<and>
   tau quad_ls_vars < tau_min (params quad_call) \<and>
   phi_k state1 = phi_k1 quad_ls_vars \<and>
   sigma_norm_gamma_inv_pk state0 = Fin (1/32) \<and>
   spec_sufficient_decrease state0 = Fin (1/16) \<and>
   \<not> phi_k1 quad_ls_vars \<le> phi_k state0 - spec_sufficient_decrease state0 \<and>
   \<not> phi_k state1 \<le> phi_k state0 - spec_sufficient_decrease state0"
  using quad_state_at_0' [OF quad_call_def] quad_step_A [of quad_call] quad_call_line_search_0
    quad_call_iteration_0
  by (simp add: quad_phi_values minus_real_t_def)

end
